theory Spec2Isabelle
  imports Main "HOL-Library.Char_ord" "HOL-Library.List_Lexorder"
begin

section \<open>JSON data and the JavaScript operations of the program\<close>

text \<open>
  The program is TypeScript over a SQLite store (\<^verbatim>\<open>src/database.ts\<close>). The raw
  records are whatever \<^verbatim>\<open>JSON.parse\<close> returned for a dataset file or a fetched
  body; the type annotations (\<^verbatim>\<open>SetInfo[]\<close>, \<^verbatim>\<open>PokemonCard[]\<close>, \<^verbatim>\<open>any[]\<close>)
  are erased at run time, so a record is modelled as a JSON value and every property
  read goes through the JavaScript rules. Numbers are integers here (fractions are
  outside the model) and strings are byte strings.
\<close>

datatype json =
    JNull
  | JBool bool
  | JNum int
  | JStr string
  | JArr "json list"
  | JObj "(string \<times> json) list"

text \<open>
  A JavaScript value is a JSON value, \<^verbatim>\<open>undefined\<close>, \<^verbatim>\<open>NaN\<close>, or a string that was
  produced by \<^verbatim>\<open>JSON.stringify\<close>. The last is kept as the value it encodes
  (\<open>JsonText j\<close> is the string \<^verbatim>\<open>JSON.stringify(j)\<close>), so that \<^verbatim>\<open>JSON.parse\<close> of it is
  \<open>j\<close> again.
\<close>

datatype js = Undefined | NaN | Val json | JsonText json

datatype error =
    TypeError
  | SyntaxError
  | ReadError
  | FetchError
  | NotNullViolation
  | ForeignKeyViolation
  | DatatypeMismatch

definition bindE :: "error + 'a \<Rightarrow> ('a \<Rightarrow> error + 'b) \<Rightarrow> error + 'b" where
  "bindE m f = (case m of Inl e \<Rightarrow> Inl e | Inr x \<Rightarrow> f x)"

fun sequenceE :: "(error + 'a) list \<Rightarrow> error + 'a list" where
  "sequenceE [] = Inr []"
| "sequenceE (m # ms) =
     (case m of Inl e \<Rightarrow> Inl e
      | Inr x \<Rightarrow> (case sequenceE ms of Inl e \<Rightarrow> Inl e | Inr xs \<Rightarrow> Inr (x # xs)))"

fun truthy :: "js \<Rightarrow> bool" where
  "truthy Undefined = False"
| "truthy NaN = False"
| "truthy (Val JNull) = False"
| "truthy (Val (JBool b)) = b"
| "truthy (Val (JNum n)) = (n \<noteq> 0)"
| "truthy (Val (JStr s)) = (s \<noteq> [])"
| "truthy (Val (JArr xs)) = True"
| "truthy (Val (JObj kvs)) = True"
| "truthy (JsonText j) = True"

definition js_or :: "js \<Rightarrow> js \<Rightarrow> js" where
  "js_or a b = (if truthy a then a else b)"

text \<open>
  \<^verbatim>\<open>x.k\<close>: a TypeError on \<^verbatim>\<open>null\<close> and \<^verbatim>\<open>undefined\<close>, the member of an object,
  \<^verbatim>\<open>undefined\<close> on every other value (the names read this way are data fields, never
  built-in properties). An object holds one value per key, as \<^verbatim>\<open>JSON.parse\<close> leaves it.
  \<^verbatim>\<open>x?.k\<close> is \<^verbatim>\<open>undefined\<close> where \<^verbatim>\<open>x.k\<close> throws.
\<close>

fun get_prop :: "string \<Rightarrow> js \<Rightarrow> error + js" where
  "get_prop k Undefined = Inl TypeError"
| "get_prop k (Val JNull) = Inl TypeError"
| "get_prop k (Val (JObj kvs)) = Inr (case map_of kvs k of None \<Rightarrow> Undefined | Some v \<Rightarrow> Val v)"
| "get_prop k x = Inr Undefined"

definition opt_prop :: "string \<Rightarrow> js \<Rightarrow> js" where
  "opt_prop k x = (case get_prop k x of Inl e \<Rightarrow> Undefined | Inr v \<Rightarrow> v)"

subsection \<open>Strings: split, slice, parseInt\<close>

fun split :: "char \<Rightarrow> string \<Rightarrow> string list" where
  "split sep [] = [[]]"
| "split sep (c # cs) =
     (if c = sep then [] # split sep cs
      else (case split sep cs of [] \<Rightarrow> [[c]] | w # ws \<Rightarrow> (c # w) # ws))"

text \<open>\<^verbatim>\<open>xs[i]\<close> on an array of strings: \<^verbatim>\<open>undefined\<close> out of range.\<close>

definition at_index :: "string list \<Rightarrow> nat \<Rightarrow> js" where
  "at_index xs i = (if i < length xs then Val (JStr (xs ! i)) else Undefined)"

text \<open>\<^verbatim>\<open>xs.slice(start, end)\<close>: a negative index counts from the end.\<close>

definition slice :: "int \<Rightarrow> int \<Rightarrow> 'a list \<Rightarrow> 'a list" where
  "slice start end xs =
     (let n = int (length xs);
          k = (if start < 0 then max (n + start) 0 else min start n);
          e = (if end < 0 then max (n + end) 0 else min end n)
      in take (nat (e - k)) (drop (nat k) xs))"

definition is_ws :: "char \<Rightarrow> bool" where
  "is_ws c = (c \<in> {CHR 0x20, CHR 0x09, CHR 0x0A, CHR 0x0B, CHR 0x0C, CHR 0x0D})"

definition digit_of :: "char \<Rightarrow> nat option" where
  "digit_of c =
     (let n = of_char c :: nat in
      if 48 \<le> n \<and> n \<le> 57 then Some (n - 48)
      else if 97 \<le> n \<and> n \<le> 122 then Some (n - 87)
      else if 65 \<le> n \<and> n \<le> 90 then Some (n - 55)
      else None)"

definition is_digit :: "nat \<Rightarrow> char \<Rightarrow> bool" where
  "is_digit radix c = (case digit_of c of None \<Rightarrow> False | Some d \<Rightarrow> d < radix)"

definition digits_value :: "nat \<Rightarrow> string \<Rightarrow> nat" where
  "digits_value radix ds = foldl (\<lambda>a c. a * radix + (case digit_of c of None \<Rightarrow> 0 | Some d \<Rightarrow> d)) 0 ds"

text \<open>
  \<^verbatim>\<open>parseInt(s)\<close> with no radix: leading white space is skipped, then an optional sign,
  then a \<^verbatim>\<open>0x\<close> prefix selects radix 16, then the longest run of digits is read;
  \<open>None\<close> is \<^verbatim>\<open>NaN\<close> (no digit).
\<close>

definition parseInt_string :: "string \<Rightarrow> int option" where
  "parseInt_string s =
     (let t = dropWhile is_ws s;
          neg = (take 1 t = [CHR ''-'']);
          u = (if take 1 t = [CHR ''-''] \<or> take 1 t = [CHR ''+''] then drop 1 t else t);
          hex = (take 2 u = ''0x'' \<or> take 2 u = ''0X'');
          radix = (if hex then 16 else 10);
          ds = takeWhile (is_digit radix) (if hex then drop 2 u else u)
      in if ds = [] then None
         else Some ((if neg then - 1 else 1) * int (digits_value radix ds)))"

subsection \<open>JSON.stringify\<close>

definition digit_char :: "nat \<Rightarrow> char" where
  "digit_char d = ''0123456789abcdef'' ! d"

function show_nat :: "nat \<Rightarrow> string" where
  "show_nat n = (if n < 10 then [digit_char n] else show_nat (n div 10) @ [digit_char (n mod 10)])"
  by pat_completeness auto
termination
  by (relation "measure id") auto

definition show_int :: "int \<Rightarrow> string" where
  "show_int i = (if i < 0 then CHR ''-'' # show_nat (nat (- i)) else show_nat (nat i))"

definition escape_char :: "char \<Rightarrow> string" where
  "escape_char c =
     (if c = CHR 0x22 then [CHR 0x5C, CHR 0x22]
      else if c = CHR 0x5C then [CHR 0x5C, CHR 0x5C]
      else if c = CHR 0x08 then [CHR 0x5C, CHR ''b'']
      else if c = CHR 0x0C then [CHR 0x5C, CHR ''f'']
      else if c = CHR 0x0A then [CHR 0x5C, CHR ''n'']
      else if c = CHR 0x0D then [CHR 0x5C, CHR ''r'']
      else if c = CHR 0x09 then [CHR 0x5C, CHR ''t'']
      else if (of_char c :: nat) < 32
        then [CHR 0x5C, CHR ''u'', CHR ''0'', CHR ''0'',
              digit_char ((of_char c :: nat) div 16), digit_char ((of_char c :: nat) mod 16)]
      else [c])"

definition quote :: "string \<Rightarrow> string" where
  "quote s = CHR 0x22 # concat (map escape_char s) @ [CHR 0x22]"

fun join :: "string \<Rightarrow> string list \<Rightarrow> string" where
  "join sep [] = []"
| "join sep [x] = x"
| "join sep (x # y # ys) = x @ sep @ join sep (y # ys)"

fun stringify :: "json \<Rightarrow> string" where
  "stringify JNull = ''null''"
| "stringify (JBool b) = (if b then ''true'' else ''false'')"
| "stringify (JNum n) = show_int n"
| "stringify (JStr s) = quote s"
| "stringify (JArr xs) = ''['' @ join '','' (map stringify xs) @ '']''"
| "stringify (JObj kvs) =
     ''{'' @ join '','' (map (\<lambda>kv. quote (fst kv) @ '':'' @ stringify (snd kv)) kvs) @ ''}''"

text \<open>
  \<^verbatim>\<open>JSON.stringify(x)\<close> is \<^verbatim>\<open>undefined\<close> for \<^verbatim>\<open>undefined\<close>, and the text of the value
  otherwise (\<^verbatim>\<open>NaN\<close> prints as \<^verbatim>\<open>null\<close>).
\<close>

fun JSON_stringify :: "js \<Rightarrow> js" where
  "JSON_stringify Undefined = Undefined"
| "JSON_stringify NaN = JsonText JNull"
| "JSON_stringify (Val j) = JsonText j"
| "JSON_stringify (JsonText j) = JsonText (JStr (stringify j))"

fun js_split :: "char \<Rightarrow> js \<Rightarrow> error + string list" where
  "js_split sep (Val (JStr s)) = Inr (split sep s)"
| "js_split sep (JsonText j) = Inr (split sep (stringify j))"
| "js_split sep x = Inl TypeError"

fun parseInt :: "js \<Rightarrow> js" where
  "parseInt (Val (JStr s)) = (case parseInt_string s of None \<Rightarrow> NaN | Some n \<Rightarrow> Val (JNum n))"
| "parseInt (Val (JNum n)) = Val (JNum n)"
| "parseInt (JsonText j) = (case parseInt_string (stringify j) of None \<Rightarrow> NaN | Some n \<Rightarrow> Val (JNum n))"
| "parseInt x = NaN"


section \<open>The SQLite store\<close>

text \<open>
  A stored value is \<^verbatim>\<open>NULL\<close>, an integer or a text. A text that \<^verbatim>\<open>JSON.stringify\<close>
  produced is kept as \<open>SJson j\<close>: it is the text \<open>stringify j\<close>, and comparisons read
  it as that text.
\<close>

datatype sqlval = SNull | SInt int | SText string | SJson json

datatype affinity = TEXT | INTEGER | NUMERIC

datatype table_name =
    Sets | Cards | Decks | PokemonTypes | PokemonMoves | PokemonAbilities
  | PokemonSpecies | Pokedexes | PokedexEntries

type_synonym row = "(string \<times> sqlval) list"

text \<open>The store: the rows of each of the nine tables, oldest first.\<close>

record db =
  sets_rows :: "row list"
  cards_rows :: "row list"
  decks_rows :: "row list"
  pokemon_types_rows :: "row list"
  pokemon_moves_rows :: "row list"
  pokemon_abilities_rows :: "row list"
  pokemon_species_rows :: "row list"
  pokedexes_rows :: "row list"
  pokedex_entries_rows :: "row list"

fun rows :: "db \<Rightarrow> table_name \<Rightarrow> row list" where
  "rows db Sets = sets_rows db"
| "rows db Cards = cards_rows db"
| "rows db Decks = decks_rows db"
| "rows db PokemonTypes = pokemon_types_rows db"
| "rows db PokemonMoves = pokemon_moves_rows db"
| "rows db PokemonAbilities = pokemon_abilities_rows db"
| "rows db PokemonSpecies = pokemon_species_rows db"
| "rows db Pokedexes = pokedexes_rows db"
| "rows db PokedexEntries = pokedex_entries_rows db"

fun put :: "table_name \<Rightarrow> row list \<Rightarrow> db \<Rightarrow> db" where
  "put Sets x db = db\<lparr> sets_rows := x \<rparr>"
| "put Cards x db = db\<lparr> cards_rows := x \<rparr>"
| "put Decks x db = db\<lparr> decks_rows := x \<rparr>"
| "put PokemonTypes x db = db\<lparr> pokemon_types_rows := x \<rparr>"
| "put PokemonMoves x db = db\<lparr> pokemon_moves_rows := x \<rparr>"
| "put PokemonAbilities x db = db\<lparr> pokemon_abilities_rows := x \<rparr>"
| "put PokemonSpecies x db = db\<lparr> pokemon_species_rows := x \<rparr>"
| "put Pokedexes x db = db\<lparr> pokedexes_rows := x \<rparr>"
| "put PokedexEntries x db = db\<lparr> pokedex_entries_rows := x \<rparr>"

definition empty_db :: db where
  "empty_db =
     \<lparr> sets_rows = [], cards_rows = [], decks_rows = [], pokemon_types_rows = [],
       pokemon_moves_rows = [], pokemon_abilities_rows = [], pokemon_species_rows = [],
       pokedexes_rows = [], pokedex_entries_rows = [] \<rparr>"

text \<open>
  What better-sqlite3 binds for a JavaScript argument: \<^verbatim>\<open>null\<close>, \<^verbatim>\<open>undefined\<close> and
  \<^verbatim>\<open>NaN\<close> as \<^verbatim>\<open>NULL\<close>, a number, a string; a boolean, an array or an object is a
  TypeError.
\<close>

fun bind_param :: "js \<Rightarrow> error + sqlval" where
  "bind_param Undefined = Inr SNull"
| "bind_param NaN = Inr SNull"
| "bind_param (Val JNull) = Inr SNull"
| "bind_param (Val (JNum n)) = Inr (SInt n)"
| "bind_param (Val (JStr s)) = Inr (SText s)"
| "bind_param (JsonText j) = Inr (SJson j)"
| "bind_param (Val (JBool b)) = Inl TypeError"
| "bind_param (Val (JArr xs)) = Inl TypeError"
| "bind_param (Val (JObj kvs)) = Inl TypeError"

fun text_of :: "sqlval \<Rightarrow> string option" where
  "text_of (SText s) = Some s"
| "text_of (SJson j) = Some (stringify j)"
| "text_of v = None"

text \<open>
  Column affinity, applied when a row is written: an integer in a \<^verbatim>\<open>TEXT\<close> column
  becomes its decimal text, and a text in a numeric column (\<^verbatim>\<open>INTEGER\<close>, \<^verbatim>\<open>REAL\<close>,
  \<^verbatim>\<open>BOOLEAN\<close>) that is an integer literal becomes that integer.
\<close>

definition int_literal :: "string \<Rightarrow> int option" where
  "int_literal s =
     (let ds = (if take 1 s = ''-'' then drop 1 s else s)
      in if ds \<noteq> [] \<and> list_all (is_digit 10) ds
         then Some ((if take 1 s = ''-'' then - 1 else 1) * int (digits_value 10 ds))
         else None)"

fun apply_affinity :: "affinity \<Rightarrow> sqlval \<Rightarrow> sqlval" where
  "apply_affinity a SNull = SNull"
| "apply_affinity TEXT (SInt n) = SText (show_int n)"
| "apply_affinity TEXT v = v"
| "apply_affinity a (SInt n) = SInt n"
| "apply_affinity a v =
     (case text_of v of None \<Rightarrow> v
      | Some s \<Rightarrow> (case int_literal s of None \<Rightarrow> v | Some n \<Rightarrow> SInt n))"

subsection \<open>The schema (initializeSchema)\<close>

fun columns :: "table_name \<Rightarrow> (string \<times> affinity) list" where
  "columns PokemonTypes =
     [(''id'', TEXT), (''name'', TEXT), (''color'', TEXT), (''isCanonical'', NUMERIC)]"
| "columns PokemonMoves =
     [(''id'', TEXT), (''name'', TEXT), (''psName'', TEXT), (''generation'', INTEGER),
      (''description'', TEXT), (''shortDesc'', TEXT), (''type'', TEXT), (''power'', INTEGER),
      (''accuracy'', INTEGER), (''pp'', INTEGER), (''category'', TEXT), (''priority'', INTEGER),
      (''isZ'', NUMERIC), (''isGmax'', NUMERIC)]"
| "columns PokemonAbilities =
     [(''id'', TEXT), (''name'', TEXT), (''description'', TEXT), (''shortDesc'', TEXT),
      (''generation'', INTEGER)]"
| "columns PokemonSpecies =
     [(''id'', INTEGER), (''name'', TEXT), (''types'', TEXT), (''abilities'', TEXT),
      (''hiddenAbilities'', TEXT), (''baseStats'', TEXT), (''height'', NUMERIC),
      (''weight'', NUMERIC), (''generation'', INTEGER), (''evolutionChain'', TEXT)]"
| "columns Pokedexes =
     [(''id'', INTEGER), (''name'', TEXT), (''descriptions'', TEXT), (''names'', TEXT),
      (''isMainSeries'', NUMERIC), (''region'', TEXT)]"
| "columns PokedexEntries =
     [(''id'', INTEGER), (''pokedexId'', INTEGER), (''entryNumber'', INTEGER),
      (''pokemonSpeciesId'', INTEGER), (''pokemonSpeciesName'', TEXT)]"
| "columns Sets =
     [(''id'', TEXT), (''name'', TEXT), (''series'', TEXT), (''printedTotal'', INTEGER),
      (''total'', INTEGER), (''legalities'', TEXT), (''ptcgoCode'', TEXT),
      (''releaseDate'', TEXT), (''updatedAt'', TEXT), (''images'', TEXT), (''year'', TEXT)]"
| "columns Cards =
     [(''id'', TEXT), (''name'', TEXT), (''supertype'', TEXT), (''subtypes'', TEXT),
      (''level'', TEXT), (''hp'', TEXT), (''types'', TEXT), (''evolvesFrom'', TEXT),
      (''evolvesTo'', TEXT), (''abilities'', TEXT), (''attacks'', TEXT), (''weaknesses'', TEXT),
      (''resistances'', TEXT), (''retreatCost'', TEXT), (''convertedRetreatCost'', INTEGER),
      (''number'', TEXT), (''artist'', TEXT), (''rarity'', TEXT), (''flavorText'', TEXT),
      (''nationalPokedexNumbers'', TEXT), (''legalities'', TEXT), (''images'', TEXT),
      (''rules'', TEXT), (''setId'', TEXT)]"
| "columns Decks =
     [(''id'', TEXT), (''name'', TEXT), (''setId'', TEXT), (''cards'', TEXT)]"

text \<open>
  Every table's primary key is its column \<^verbatim>\<open>id\<close>; three of them are
  \<^verbatim>\<open>INTEGER PRIMARY KEY\<close> (the rowid), which SQLite assigns when the statement gives
  none. \<^verbatim>\<open>name\<close> is \<^verbatim>\<open>NOT NULL\<close> in every table that has it.
\<close>

fun integer_pk :: "table_name \<Rightarrow> bool" where
  "integer_pk PokemonSpecies = True"
| "integer_pk Pokedexes = True"
| "integer_pk PokedexEntries = True"
| "integer_pk t = False"

fun not_null_cols :: "table_name \<Rightarrow> string list" where
  "not_null_cols PokedexEntries = []"
| "not_null_cols t = [''name'']"

fun foreign_key :: "table_name \<Rightarrow> (string \<times> table_name) option" where
  "foreign_key Cards = Some (''setId'', Sets)"
| "foreign_key Decks = Some (''setId'', Sets)"
| "foreign_key PokedexEntries = Some (''pokedexId'', Pokedexes)"
| "foreign_key t = None"

definition col :: "string \<Rightarrow> row \<Rightarrow> sqlval" where
  "col c r = (case map_of r c of None \<Rightarrow> SNull | Some v \<Rightarrow> v)"

text \<open>
  \<^verbatim>\<open>a = b\<close> in SQL: unknown (\<open>None\<close>) when either side is \<^verbatim>\<open>NULL\<close>; an integer
  and a text are never equal; two texts are compared byte by byte (the \<^verbatim>\<open>BINARY\<close>
  collation).
\<close>

fun sql_eq :: "sqlval \<Rightarrow> sqlval \<Rightarrow> bool option" where
  "sql_eq SNull b = None"
| "sql_eq a SNull = None"
| "sql_eq (SInt a) (SInt b) = Some (a = b)"
| "sql_eq (SInt a) b = Some False"
| "sql_eq a (SInt b) = Some False"
| "sql_eq a b = Some (text_of a = text_of b)"

fun int_ids :: "row list \<Rightarrow> int list" where
  "int_ids [] = []"
| "int_ids (r # rs) = (case col ''id'' r of SInt n \<Rightarrow> n # int_ids rs | v \<Rightarrow> int_ids rs)"

definition next_rowid :: "row list \<Rightarrow> int" where
  "next_rowid tbl = (case int_ids tbl of [] \<Rightarrow> 1 | i # is \<Rightarrow> fold max is i + 1)"

definition fk_ok :: "table_name \<Rightarrow> row \<Rightarrow> db \<Rightarrow> bool" where
  "fk_ok t r db =
     (case foreign_key t of None \<Rightarrow> True
      | Some (c, parent) \<Rightarrow>
          col c r = SNull \<or> list_ex (\<lambda>p. sql_eq (col ''id'' p) (col c r) = Some True) (rows db parent))"

text \<open>
  \<^verbatim>\<open>INSERT OR REPLACE INTO t (cs) VALUES (?, ...)\<close> with the bound values \<open>vs\<close>.
  A column the statement does not name is \<^verbatim>\<open>NULL\<close>. The statement fails, and leaves
  the store as it was, on a \<^verbatim>\<open>NULL\<close> in a \<^verbatim>\<open>NOT NULL\<close> column, on a rowid that is
  not an integer, and on a foreign key with no parent row (foreign keys are switched
  on in the constructor). Otherwise the row with the same primary key, if any, is
  deleted and the new row is added at the end of the table.
\<close>

definition new_row :: "table_name \<Rightarrow> string list \<Rightarrow> sqlval list \<Rightarrow> row" where
  "new_row t cs vs =
     map (\<lambda>ca. (fst ca, case map_of (zip cs vs) (fst ca) of None \<Rightarrow> SNull
                        | Some v \<Rightarrow> apply_affinity (snd ca) v)) (columns t)"

definition with_rowid :: "table_name \<Rightarrow> row list \<Rightarrow> row \<Rightarrow> error + row" where
  "with_rowid t tbl r =
     (if \<not> integer_pk t then Inr r
      else (case col ''id'' r of
              SInt n \<Rightarrow> Inr r
            | SNull \<Rightarrow> Inr (map (\<lambda>cv. if fst cv = ''id'' then (fst cv, SInt (next_rowid tbl)) else cv) r)
            | v \<Rightarrow> Inl DatatypeMismatch))"

definition insert_or_replace ::
  "table_name \<Rightarrow> string list \<Rightarrow> sqlval list \<Rightarrow> db \<Rightarrow> (error + unit) \<times> db" where
  "insert_or_replace t cs vs db =
     (if list_ex (\<lambda>c. col c (new_row t cs vs) = SNull) (not_null_cols t)
      then (Inl NotNullViolation, db)
      else (case with_rowid t (rows db t) (new_row t cs vs) of
              Inl e \<Rightarrow> (Inl e, db)
            | Inr r \<Rightarrow>
                (let kept = filter (\<lambda>old. sql_eq (col ''id'' old) (col ''id'' r) \<noteq> Some True) (rows db t);
                     db' = put t (kept @ [r]) db
                 in if fk_ok t r db' then (Inr (), db') else (Inl ForeignKeyViolation, db))))"

subsection \<open>Statements, loops, transactions, try/catch\<close>

text \<open>
  A piece of the program that writes the store takes the store and returns the new
  store together with \<open>Inr ()\<close>, or with \<open>Inl e\<close> when it threw \<open>e\<close>. What was written
  before a throw stays written unless a transaction rolls it back.
\<close>

type_synonym prog = "db \<Rightarrow> (error + unit) \<times> db"

definition skip :: prog where
  "skip db = (Inr (), db)"

definition throw :: "error \<Rightarrow> prog" where
  "throw e db = (Inl e, db)"

definition seq :: "prog \<Rightarrow> prog \<Rightarrow> prog" where
  "seq p q db = (case p db of (Inl e, db') \<Rightarrow> (Inl e, db') | (Inr u, db') \<Rightarrow> q db')"

text \<open>\<^verbatim>\<open>stmt.run(args)\<close>: the arguments are evaluated, bound, and the statement runs.\<close>

definition bound :: "(error + js) list \<Rightarrow> error + sqlval list" where
  "bound args = bindE (sequenceE args) (\<lambda>xs. sequenceE (map bind_param xs))"

definition run :: "table_name \<Rightarrow> string list \<Rightarrow> (error + js) list \<Rightarrow> prog" where
  "run t cs args db =
     (case bound args of Inl e \<Rightarrow> (Inl e, db) | Inr vs \<Rightarrow> insert_or_replace t cs vs db)"

fun for_of :: "('a \<Rightarrow> prog) \<Rightarrow> 'a list \<Rightarrow> prog" where
  "for_of body [] db = (Inr (), db)"
| "for_of body (x # xs) db =
     (case body x db of (Inl e, db') \<Rightarrow> (Inl e, db') | (Inr u, db') \<Rightarrow> for_of body xs db')"

text \<open>
  \<^verbatim>\<open>db.transaction(fn)\<close> of better-sqlite3: \<^verbatim>\<open>BEGIN\<close>, the function, \<^verbatim>\<open>COMMIT\<close>; when
  the function throws, \<^verbatim>\<open>ROLLBACK\<close> and the exception is thrown on.
\<close>

definition transaction :: "prog \<Rightarrow> prog" where
  "transaction p db = (case p db of (Inl e, db') \<Rightarrow> (Inl e, db) | (Inr u, db') \<Rightarrow> (Inr u, db'))"

text \<open>\<^verbatim>\<open>try { p } catch (error) { console.log(...) }\<close>: the handler only logs.\<close>

definition try_catch :: "prog \<Rightarrow> prog" where
  "try_catch p db = (case p db of (Inl e, db') \<Rightarrow> (Inr (), db') | (Inr u, db') \<Rightarrow> (Inr u, db'))"

text \<open>
  \<^verbatim>\<open>for (const x of v)\<close> iterates an array, or the characters of a string; any
  other value is not iterable (TypeError).
\<close>

fun iterate :: "js \<Rightarrow> error + js list" where
  "iterate (Val (JArr xs)) = Inr (map Val xs)"
| "iterate (Val (JStr s)) = Inr (map (\<lambda>c. Val (JStr [c])) s)"
| "iterate (JsonText j) = Inr (map (\<lambda>c. Val (JStr [c])) (stringify j))"
| "iterate x = Inl TypeError"

definition for_of_js :: "(js \<Rightarrow> prog) \<Rightarrow> js \<Rightarrow> prog" where
  "for_of_js body v = (case iterate v of Inl e \<Rightarrow> throw e | Inr xs \<Rightarrow> for_of body xs)"

section \<open>The migration (database.ts)\<close>

subsection \<open>Local datasets: sets, cards, decks\<close>

text \<open>
  \<^verbatim>\<open>files.flatMap(f => JSON.parse(fs.readFileSync(f, "utf8")))\<close>: the files are given
  as the outcome of reading and parsing each one, in the order \<^verbatim>\<open>glob.sync\<close> listed
  them. The first file that cannot be read or parsed throws. \<^verbatim>\<open>flatMap\<close> splices an
  array in and keeps any other value as one element.
\<close>

definition flat_one :: "json \<Rightarrow> json list" where
  "flat_one j = (case j of JArr xs \<Rightarrow> xs | v \<Rightarrow> [j])"

definition load_files :: "(error + json) list \<Rightarrow> error + json list" where
  "load_files fs = bindE (sequenceE fs) (\<lambda>js. Inr (concat (map flat_one js)))"

definition stringified :: "error + js \<Rightarrow> error + js" where
  "stringified m = bindE m (\<lambda>x. Inr (JSON_stringify x))"

definition or_else :: "error + js \<Rightarrow> js \<Rightarrow> error + js" where
  "or_else m d = bindE m (\<lambda>x. Inr (js_or x d))"

text \<open>\<^verbatim>\<open>set.releaseDate ? set.releaseDate.split("/")[0] : null\<close>\<close>

definition set_year :: "js \<Rightarrow> error + js" where
  "set_year s =
     bindE (get_prop ''releaseDate'' s) (\<lambda>releaseDate.
       if truthy releaseDate
       then bindE (js_split CHR ''/'' releaseDate) (\<lambda>parts. Inr (at_index parts 0))
       else Inr (Val JNull))"

definition sets_columns :: "string list" where
  "sets_columns =
     [''id'', ''name'', ''series'', ''printedTotal'', ''total'', ''legalities'',
      ''ptcgoCode'', ''releaseDate'', ''updatedAt'', ''images'', ''year'']"

text \<open>The arguments of \<^verbatim>\<open>insertSet.run(...)\<close>, in the order of the statement's columns.\<close>

definition set_params :: "js \<Rightarrow> js \<Rightarrow> (error + js) list" where
  "set_params s year =
     [get_prop ''id'' s,
      get_prop ''name'' s,
      get_prop ''series'' s,
      get_prop ''printedTotal'' s,
      get_prop ''total'' s,
      stringified (get_prop ''legalities'' s),
      get_prop ''ptcgoCode'' s,
      get_prop ''releaseDate'' s,
      get_prop ''updatedAt'' s,
      stringified (get_prop ''images'' s),
      Inr year]"

definition insertSet :: "js \<Rightarrow> prog" where
  "insertSet s db =
     (case set_year s of
        Inl e \<Rightarrow> (Inl e, db)
      | Inr year \<Rightarrow> run Sets sets_columns (set_params s year) db)"

definition insertSets :: "json list \<Rightarrow> prog" where
  "insertSets sets = transaction (for_of insertSet (map Val sets))"

definition migrateSets :: "(error + json) list \<Rightarrow> prog" where
  "migrateSets set_files =
     (case load_files set_files of Inl e \<Rightarrow> throw e | Inr sets \<Rightarrow> insertSets sets)"

text \<open>
  \<^verbatim>\<open>let setId = card.set?.id; if (!setId && card.id) { setId = card.id.split("-")[0]; }\<close>
\<close>

definition card_setId :: "js \<Rightarrow> error + js" where
  "card_setId c =
     bindE (get_prop ''set'' c) (\<lambda>s.
     bindE (get_prop ''id'' c) (\<lambda>cid.
       if \<not> truthy (opt_prop ''id'' s) \<and> truthy cid
       then bindE (js_split CHR ''-'' cid) (\<lambda>parts. Inr (at_index parts 0))
       else Inr (opt_prop ''id'' s)))"

definition cards_columns :: "string list" where
  "cards_columns =
     [''id'', ''name'', ''supertype'', ''subtypes'', ''level'', ''hp'', ''types'',
      ''evolvesFrom'', ''evolvesTo'', ''abilities'', ''attacks'', ''weaknesses'',
      ''resistances'', ''retreatCost'', ''convertedRetreatCost'', ''number'', ''artist'',
      ''rarity'', ''flavorText'', ''nationalPokedexNumbers'', ''legalities'', ''images'',
      ''rules'', ''setId'']"

text \<open>The arguments of \<^verbatim>\<open>insertCard.run(...)\<close>, in the order of the statement's columns.\<close>

definition card_params :: "js \<Rightarrow> js \<Rightarrow> (error + js) list" where
  "card_params c setId =
     [get_prop ''id'' c,
      get_prop ''name'' c,
      get_prop ''supertype'' c,
      stringified (or_else (get_prop ''subtypes'' c) (Val (JArr []))),
      get_prop ''level'' c,
      get_prop ''hp'' c,
      stringified (or_else (get_prop ''types'' c) (Val (JArr []))),
      get_prop ''evolvesFrom'' c,
      stringified (or_else (get_prop ''evolvesTo'' c) (Val (JArr []))),
      stringified (or_else (get_prop ''abilities'' c) (Val (JArr []))),
      stringified (or_else (get_prop ''attacks'' c) (Val (JArr []))),
      stringified (or_else (get_prop ''weaknesses'' c) (Val (JArr []))),
      stringified (or_else (get_prop ''resistances'' c) (Val (JArr []))),
      stringified (or_else (get_prop ''retreatCost'' c) (Val (JArr []))),
      get_prop ''convertedRetreatCost'' c,
      get_prop ''number'' c,
      get_prop ''artist'' c,
      get_prop ''rarity'' c,
      get_prop ''flavorText'' c,
      stringified (or_else (get_prop ''nationalPokedexNumbers'' c) (Val (JArr []))),
      stringified (get_prop ''legalities'' c),
      stringified (get_prop ''images'' c),
      stringified (or_else (get_prop ''rules'' c) (Val (JArr []))),
      Inr setId]"

definition insertCard :: "js \<Rightarrow> prog" where
  "insertCard c db =
     (case card_setId c of
        Inl e \<Rightarrow> (Inl e, db)
      | Inr setId \<Rightarrow> run Cards cards_columns (card_params c setId) db)"

definition insertCards :: "json list \<Rightarrow> prog" where
  "insertCards cards = transaction (for_of insertCard (map Val cards))"

definition migrateCards :: "(error + json) list \<Rightarrow> prog" where
  "migrateCards card_files =
     (case load_files card_files of Inl e \<Rightarrow> throw e | Inr cards \<Rightarrow> insertCards cards)"

text \<open>
  Decks. The object that the normalisation step builds has the four fields
  \<^verbatim>\<open>id\<close>, \<^verbatim>\<open>name\<close>, \<^verbatim>\<open>setId\<close>, \<^verbatim>\<open>cards\<close>; \<^verbatim>\<open>setId\<close> is the file's base name.
\<close>

record normalized_deck =
  deck_id :: js
  deck_name :: js
  deck_setId :: string
  deck_cards :: js

text \<open>
  \<^verbatim>\<open>{ id: deck.id || `${setId}-deck-${index}`, name: deck.name || `${setId} Deck ${index + 1}`,
     setId: setId, cards: deck.cards || deck }\<close>
\<close>

definition normalize_deck :: "string \<Rightarrow> nat \<Rightarrow> json \<Rightarrow> error + normalized_deck" where
  "normalize_deck setId index deck =
     bindE (get_prop ''id'' (Val deck)) (\<lambda>did.
     bindE (get_prop ''name'' (Val deck)) (\<lambda>dname.
     bindE (get_prop ''cards'' (Val deck)) (\<lambda>dcards.
       Inr \<lparr> deck_id = js_or did (Val (JStr (setId @ ''-deck-'' @ show_nat index))),
             deck_name = js_or dname (Val (JStr (setId @ '' Deck '' @ show_nat (index + 1)))),
             deck_setId = setId,
             deck_cards = js_or dcards (Val deck) \<rparr>)))"

definition normalize_decks :: "string \<Rightarrow> json \<Rightarrow> error + normalized_deck list" where
  "normalize_decks setId decks =
     (case decks of
        JArr ds \<Rightarrow> sequenceE (map (\<lambda>(index, deck). normalize_deck setId index deck) (enumerate 0 ds))
      | v \<Rightarrow> Inr [\<lparr> deck_id = Val (JStr (setId @ ''-deck'')),
                     deck_name = Val (JStr (setId @ '' Deck'')),
                     deck_setId = setId,
                     deck_cards = Val decks \<rparr>])"

definition decks_columns :: "string list" where
  "decks_columns = [''id'', ''name'', ''setId'', ''cards'']"

definition insertDeck :: "normalized_deck \<Rightarrow> prog" where
  "insertDeck deck =
     run Decks decks_columns
       [Inr (js_or (deck_id deck) (Val (JStr (deck_setId deck @ ''-deck'')))),
        Inr (js_or (deck_name deck) (Val (JStr ''Unknown Deck''))),
        Inr (Val (JStr (deck_setId deck))),
        Inr (JSON_stringify (js_or (deck_cards deck) (Val (JArr []))))]"

definition insertDecks :: "normalized_deck list \<Rightarrow> prog" where
  "insertDecks deckData = transaction (for_of insertDeck deckData)"

definition migrate_deck_file :: "string \<times> (error + json) \<Rightarrow> prog" where
  "migrate_deck_file f =
     (case snd f of
        Inl e \<Rightarrow> throw e
      | Inr decks \<Rightarrow>
          (case normalize_decks (fst f) decks of
             Inl e \<Rightarrow> throw e
           | Inr normalizedDecks \<Rightarrow> insertDecks normalizedDecks))"

definition migrateDecks :: "(string \<times> (error + json)) list \<Rightarrow> prog" where
  "migrateDecks deck_files =
     try_catch (if length deck_files = 0 then skip else for_of migrate_deck_file deck_files)"

subsection \<open>External reference data: types, moves, abilities, species\<close>

text \<open>
  Each of these steps fetches one URL and decodes the body; the outcome of
  \<^verbatim>\<open>await fetch(url)\<close> followed by \<^verbatim>\<open>await response.json()\<close> is an input of the model
  (\<open>Inl e\<close> when either throws). The whole step is inside \<^verbatim>\<open>try { ... } catch\<close>.
\<close>

text \<open>\<^verbatim>\<open>x ? 1 : 0\<close>\<close>

definition flag :: "error + js \<Rightarrow> error + js" where
  "flag m = bindE m (\<lambda>x. Inr (Val (JNum (if truthy x then 1 else 0))))"

definition insertType :: "js \<Rightarrow> prog" where
  "insertType type =
     run PokemonTypes [''id'', ''name'', ''color'', ''isCanonical'']
       [get_prop ''id'' type,
        get_prop ''name'' type,
        get_prop ''color'' type,
        flag (get_prop ''isCanonical'' type)]"

definition insertTypes :: "js \<Rightarrow> prog" where
  "insertTypes types = transaction (for_of_js insertType types)"

definition migratePokemonTypes :: "error + json \<Rightarrow> prog" where
  "migratePokemonTypes body =
     try_catch (case body of Inl e \<Rightarrow> throw e | Inr types \<Rightarrow> insertTypes (Val types))"

definition insertMove :: "js \<Rightarrow> prog" where
  "insertMove move =
     run PokemonMoves
       [''id'', ''name'', ''psName'', ''generation'', ''description'', ''shortDesc'',
        ''type'', ''power'', ''accuracy'', ''pp'', ''category'', ''priority'', ''isZ'', ''isGmax'']
       [get_prop ''id'' move, get_prop ''name'' move, get_prop ''psName'' move,
        get_prop ''generation'' move,
        get_prop ''desc'' move, get_prop ''shortDesc'' move, get_prop ''type'' move,
        get_prop ''power'' move,
        get_prop ''accuracy'' move, get_prop ''pp'' move, get_prop ''category'' move,
        get_prop ''priority'' move,
        flag (get_prop ''isZ'' move), flag (get_prop ''isGmax'' move)]"

definition insertMoves :: "js \<Rightarrow> prog" where
  "insertMoves moves = transaction (for_of_js insertMove moves)"

definition migratePokemonMoves :: "error + json \<Rightarrow> prog" where
  "migratePokemonMoves body =
     try_catch (case body of Inl e \<Rightarrow> throw e | Inr moves \<Rightarrow> insertMoves (Val moves))"

definition insertAbility :: "js \<Rightarrow> prog" where
  "insertAbility ability =
     run PokemonAbilities [''id'', ''name'', ''description'', ''shortDesc'', ''generation'']
       [get_prop ''id'' ability, get_prop ''name'' ability, get_prop ''desc'' ability,
        get_prop ''shortDesc'' ability, get_prop ''generation'' ability]"

definition insertAbilities :: "js \<Rightarrow> prog" where
  "insertAbilities abilities = transaction (for_of_js insertAbility abilities)"

definition migratePokemonAbilities :: "error + json \<Rightarrow> prog" where
  "migratePokemonAbilities body =
     try_catch (case body of Inl e \<Rightarrow> throw e | Inr abilities \<Rightarrow> insertAbilities (Val abilities))"

definition insertSpecies :: "js \<Rightarrow> prog" where
  "insertSpecies pkmn =
     run PokemonSpecies
       [''id'', ''name'', ''types'', ''abilities'', ''hiddenAbilities'', ''baseStats'',
        ''height'', ''weight'', ''generation'', ''evolutionChain'']
       [bindE (get_prop ''nationalDexNumber'' pkmn) (\<lambda>n.
          if truthy n then Inr n else get_prop ''id'' pkmn),
        get_prop ''name'' pkmn,
        stringified (or_else (get_prop ''types'' pkmn) (Val (JArr []))),
        stringified (or_else (get_prop ''abilities'' pkmn) (Val (JArr []))),
        stringified (or_else (get_prop ''hiddenAbilities'' pkmn) (Val (JArr []))),
        stringified (or_else (get_prop ''baseStats'' pkmn) (Val (JObj []))),
        get_prop ''height'' pkmn,
        get_prop ''weight'' pkmn,
        get_prop ''generation'' pkmn,
        stringified (or_else (get_prop ''evolutionChain'' pkmn) (Val (JObj [])))]"

definition insertSpeciesBatch :: "js \<Rightarrow> prog" where
  "insertSpeciesBatch pokemon = transaction (for_of_js insertSpecies pokemon)"

definition migratePokemonSpecies :: "error + json \<Rightarrow> prog" where
  "migratePokemonSpecies body =
     try_catch (case body of Inl e \<Rightarrow> throw e
                | Inr pokemonList \<Rightarrow> insertSpeciesBatch (Val pokemonList))"

subsection \<open>Pokedexes and their entries (migratePokedexes)\<close>

definition insertPokedex :: "js \<Rightarrow> prog" where
  "insertPokedex pokedexData =
     run Pokedexes [''id'', ''name'', ''descriptions'', ''names'', ''isMainSeries'', ''region'']
       [get_prop ''id'' pokedexData,
        get_prop ''name'' pokedexData,
        stringified (or_else (get_prop ''descriptions'' pokedexData) (Val (JArr []))),
        stringified (or_else (get_prop ''names'' pokedexData) (Val (JArr []))),
        flag (get_prop ''is_main_series'' pokedexData),
        bindE (get_prop ''region'' pokedexData) (\<lambda>region.
          Inr (js_or (opt_prop ''name'' region) (Val JNull)))]"

text \<open>\<^verbatim>\<open>parseInt(entry.pokemon_species.url.split('/').slice(-2, -1)[0])\<close>\<close>

definition entry_species_id :: "js \<Rightarrow> error + js" where
  "entry_species_id entry =
     bindE (get_prop ''pokemon_species'' entry) (\<lambda>species.
     bindE (get_prop ''url'' species) (\<lambda>url.
     bindE (js_split CHR ''/'' url) (\<lambda>parts.
       Inr (parseInt (at_index (slice (- 2) (- 1) parts) 0)))))"

definition insertEntry :: "js \<Rightarrow> js \<Rightarrow> prog" where
  "insertEntry pokedexData entry =
     run PokedexEntries [''pokedexId'', ''entryNumber'', ''pokemonSpeciesId'', ''pokemonSpeciesName'']
       [get_prop ''id'' pokedexData,
        get_prop ''entry_number'' entry,
        entry_species_id entry,
        bindE (get_prop ''pokemon_species'' entry) (get_prop ''name'')]"

definition insertEntriesTransaction :: "js \<Rightarrow> js \<Rightarrow> prog" where
  "insertEntriesTransaction pokedexData entries =
     transaction (for_of_js (insertEntry pokedexData) entries)"

text \<open>
  \<^verbatim>\<open>pokedexData.pokemon_entries && pokedexData.pokemon_entries.length > 0\<close>, for a
  non-empty array or string. For every other value either the test is false, or the
  loop throws at once because the value is not iterable; nothing is written in both
  cases and the enclosing \<^verbatim>\<open>catch\<close> goes on with the next pokedex, so the test is
  taken to be false there.
\<close>

fun has_entries :: "js \<Rightarrow> bool" where
  "has_entries (Val (JArr xs)) = (xs \<noteq> [])"
| "has_entries (Val (JStr s)) = (s \<noteq> [])"
| "has_entries x = False"

definition insert_pokedex_entries :: "js \<Rightarrow> prog" where
  "insert_pokedex_entries pokedexData =
     (case get_prop ''pokemon_entries'' pokedexData of
        Inl e \<Rightarrow> throw e
      | Inr pokemon_entries \<Rightarrow>
          if has_entries pokemon_entries
          then insertEntriesTransaction pokedexData pokemon_entries
          else skip)"

text \<open>
  The body of the loop over \<^verbatim>\<open>pokedexList.results\<close>. Both the first line of the
  \<^verbatim>\<open>try\<close> block and its \<^verbatim>\<open>catch\<close> handler read \<^verbatim>\<open>pokedexRef.name\<close> for the log, so a
  reference that is \<^verbatim>\<open>null\<close> throws out of the handler; every other failure of the
  block is caught and the loop continues. \<open>fetch_pokedex\<close> is the outcome of fetching
  and decoding \<^verbatim>\<open>pokedexRef.url\<close>.
\<close>

definition migrate_pokedex :: "(js \<Rightarrow> error + json) \<Rightarrow> js \<Rightarrow> prog" where
  "migrate_pokedex fetch_pokedex pokedexRef =
     (case get_prop ''name'' pokedexRef of
        Inl e \<Rightarrow> throw e
      | Inr n \<Rightarrow>
          try_catch
            (case bindE (get_prop ''url'' pokedexRef) fetch_pokedex of
               Inl e \<Rightarrow> throw e
             | Inr pokedexData \<Rightarrow>
                 seq (insertPokedex (Val pokedexData)) (insert_pokedex_entries (Val pokedexData))))"

definition migratePokedexes :: "error + json \<Rightarrow> (js \<Rightarrow> error + json) \<Rightarrow> prog" where
  "migratePokedexes list_body fetch_pokedex =
     try_catch
       (case list_body of
          Inl e \<Rightarrow> throw e
        | Inr pokedexList \<Rightarrow>
            (case get_prop ''results'' (Val pokedexList) of
               Inl e \<Rightarrow> throw e
             | Inr results \<Rightarrow> for_of_js (migrate_pokedex fetch_pokedex) results))"

subsection \<open>The full migration\<close>

record sources =
  set_files :: "(error + json) list"
  card_files :: "(error + json) list"
  deck_files :: "(string \<times> (error + json)) list"
  types_body :: "error + json"
  moves_body :: "error + json"
  abilities_body :: "error + json"
  species_body :: "error + json"
  pokedex_list_body :: "error + json"
  pokedex_body :: "js \<Rightarrow> error + json"

text \<open>
  \<^verbatim>\<open>initializeSchema\<close> only runs \<^verbatim>\<open>CREATE TABLE IF NOT EXISTS\<close> and
  \<^verbatim>\<open>CREATE INDEX IF NOT EXISTS\<close>: it changes no row.
\<close>

definition initializeSchema :: prog where
  "initializeSchema = skip"

definition migrate :: "sources \<Rightarrow> prog" where
  "migrate src =
     seq initializeSchema
    (seq (migrateSets (set_files src))
    (seq (migrateCards (card_files src))
    (seq (migrateDecks (deck_files src))
    (seq (migratePokemonTypes (types_body src))
    (seq (migratePokemonMoves (moves_body src))
    (seq (migratePokemonAbilities (abilities_body src))
    (seq (migratePokemonSpecies (species_body src))
         (migratePokedexes (pokedex_list_body src) (pokedex_body src)))))))))"

section \<open>The queries (database.ts)\<close>

subsection \<open>Reading rows: the set join and transformCardRow\<close>

text \<open>
  \<^verbatim>\<open>SELECT c.*, s.name as setName, s.series, s.releaseDate, s.images as setImages, s.year
     FROM cards c LEFT JOIN sets s ON c.setId = s.id\<close>:
  one row per pair of a card and a set row with the card's \<^verbatim>\<open>setId\<close>, and one row
  with \<^verbatim>\<open>NULL\<close> in the five set columns for a card that has no such set row.
\<close>

definition set_columns_of :: "row \<Rightarrow> row" where
  "set_columns_of s =
     [(''setName'', col ''name'' s), (''series'', col ''series'' s),
      (''releaseDate'', col ''releaseDate'' s), (''setImages'', col ''images'' s),
      (''year'', col ''year'' s)]"

definition no_set_columns :: row where
  "no_set_columns =
     [(''setName'', SNull), (''series'', SNull), (''releaseDate'', SNull),
      (''setImages'', SNull), (''year'', SNull)]"

definition left_join_set :: "row list \<Rightarrow> row \<Rightarrow> row list" where
  "left_join_set sets c =
     (case filter (\<lambda>s. sql_eq (col ''setId'' c) (col ''id'' s) = Some True) sets of
        [] \<Rightarrow> [c @ no_set_columns]
      | s # ss \<Rightarrow> map (\<lambda>s. c @ set_columns_of s) (s # ss))"

definition cards_join_sets :: "db \<Rightarrow> row list" where
  "cards_join_sets db = concat (map (left_join_set (rows db Sets)) (rows db Cards))"

text \<open>What better-sqlite3 returns for a column: \<^verbatim>\<open>null\<close>, a number or a string.\<close>

fun from_sql :: "sqlval \<Rightarrow> json" where
  "from_sql SNull = JNull"
| "from_sql (SInt n) = JNum n"
| "from_sql (SText s) = JStr s"
| "from_sql (SJson j) = JStr (stringify j)"

text \<open>
  \<^verbatim>\<open>JSON.parse(row.x || d)\<close> for a literal \<open>d\<close> (\<^verbatim>\<open>'[]'\<close> or \<^verbatim>\<open>'{}'\<close>, given as the value
  it parses to). \<^verbatim>\<open>NULL\<close>, the number 0 and the empty text are falsy. A text that
  \<^verbatim>\<open>JSON.stringify\<close> wrote parses to the value it was written from; a text that it
  did not write is taken not to parse (SyntaxError).
\<close>

fun parse_or :: "sqlval \<Rightarrow> json \<Rightarrow> error + json" where
  "parse_or SNull d = Inr d"
| "parse_or (SJson j) d = Inr j"
| "parse_or (SInt n) d = Inr (if n = 0 then d else JNum n)"
| "parse_or (SText s) d = (if s = [] then Inr d else Inl SyntaxError)"

definition plain :: "string \<Rightarrow> row \<Rightarrow> error + string \<times> json" where
  "plain k r = Inr (k, from_sql (col k r))"

definition parsed :: "string \<Rightarrow> json \<Rightarrow> row \<Rightarrow> error + string \<times> json" where
  "parsed k d r = bindE (parse_or (col k r) d) (\<lambda>v. Inr (k, v))"

definition transformCardRow :: "row \<Rightarrow> error + json" where
  "transformCardRow r =
     bindE (sequenceE
       [plain ''id'' r,
        plain ''name'' r,
        plain ''supertype'' r,
        parsed ''subtypes'' (JArr []) r,
        plain ''level'' r,
        plain ''hp'' r,
        parsed ''types'' (JArr []) r,
        plain ''evolvesFrom'' r,
        parsed ''evolvesTo'' (JArr []) r,
        parsed ''abilities'' (JArr []) r,
        parsed ''attacks'' (JArr []) r,
        parsed ''weaknesses'' (JArr []) r,
        parsed ''resistances'' (JArr []) r,
        parsed ''retreatCost'' (JArr []) r,
        plain ''convertedRetreatCost'' r,
        plain ''number'' r,
        plain ''artist'' r,
        plain ''rarity'' r,
        plain ''flavorText'' r,
        parsed ''nationalPokedexNumbers'' (JArr []) r,
        parsed ''legalities'' (JObj []) r,
        parsed ''images'' (JObj []) r,
        parsed ''rules'' (JArr []) r]) (\<lambda>fields.
     bindE (parse_or (col ''setImages'' r) (JObj [])) (\<lambda>setImages.
       Inr (JObj (fields @
         [(''set'', JObj
            [(''id'', from_sql (col ''setId'' r)),
             (''name'', from_sql (col ''setName'' r)),
             (''series'', from_sql (col ''series'' r)),
             (''total'', JNum 0),
             (''releaseDate'', from_sql (col ''releaseDate'' r)),
             (''images'', setImages),
             (''year'', from_sql (col ''year'' r))])]))))"

subsection \<open>getAllCards\<close>

record filters =
  filter_types :: "string list option"
  filter_subtypes :: "string list option"
  filter_years :: "string list option"
  filter_sets :: "string list option"
  filter_rarities :: "string list option"

text \<open>
  \<^verbatim>\<open>json_each(x)\<close>, its \<^verbatim>\<open>value\<close> column: the elements of an array (the members of
  an object, the value itself for a scalar); a string element is a text, a number an
  integer, \<^verbatim>\<open>true\<close> and \<^verbatim>\<open>false\<close> are 1 and 0, \<^verbatim>\<open>null\<close> is \<^verbatim>\<open>NULL\<close>, and a nested
  array or object is its JSON text. No row for \<^verbatim>\<open>NULL\<close>; a text that is not JSON is
  an error of the statement.
\<close>

fun json_value :: "json \<Rightarrow> sqlval" where
  "json_value JNull = SNull"
| "json_value (JBool b) = SInt (if b then 1 else 0)"
| "json_value (JNum n) = SInt n"
| "json_value (JStr s) = SText s"
| "json_value j = SJson j"

fun json_each :: "sqlval \<Rightarrow> error + sqlval list" where
  "json_each SNull = Inr []"
| "json_each (SJson (JArr xs)) = Inr (map json_value xs)"
| "json_each (SJson (JObj kvs)) = Inr (map (\<lambda>kv. json_value (snd kv)) kvs)"
| "json_each (SJson j) = Inr [json_value j]"
| "json_each (SInt n) = Inr [SInt n]"
| "json_each (SText s) = Inl SyntaxError"

text \<open>\<^verbatim>\<open>x IN (?, ..., ?)\<close> with three-valued logic; \<^verbatim>\<open>WHERE\<close> keeps a row when its
  condition is true.\<close>

definition sql_in :: "sqlval \<Rightarrow> sqlval list \<Rightarrow> bool option" where
  "sql_in x vs =
     (if list_ex (\<lambda>v. sql_eq x v = Some True) vs then Some True
      else if list_ex (\<lambda>v. sql_eq x v = None) vs then None
      else Some False)"

text \<open>\<^verbatim>\<open>EXISTS (SELECT 1 FROM json_each(x) WHERE value IN (?, ..., ?))\<close>\<close>

definition exists_json_each_in :: "sqlval \<Rightarrow> string list \<Rightarrow> error + bool" where
  "exists_json_each_in x params =
     bindE (json_each x) (\<lambda>vals.
       Inr (list_ex (\<lambda>v. sql_in v (map SText params) = Some True) vals))"

definition in_params :: "sqlval \<Rightarrow> string list \<Rightarrow> error + bool" where
  "in_params x params = Inr (sql_in x (map SText params) = Some True)"

text \<open>
  The conditions that \<^verbatim>\<open>getAllCards\<close> pushes, in its order: one for each filter
  group that is present with a positive length. Each is given as its test of a
  joined row.
\<close>

definition condition :: "string list option \<Rightarrow> (string list \<Rightarrow> row \<Rightarrow> error + bool) \<Rightarrow> (row \<Rightarrow> error + bool) list" where
  "condition g test =
     (case g of None \<Rightarrow> [] | Some vs \<Rightarrow> if length vs \<noteq> 0 then [test vs] else [])"

definition conditions :: "filters option \<Rightarrow> (row \<Rightarrow> error + bool) list" where
  "conditions fo =
     (case fo of
        None \<Rightarrow> []
      | Some f \<Rightarrow>
          condition (filter_types f) (\<lambda>vs r. exists_json_each_in (col ''types'' r) vs) @
          condition (filter_subtypes f) (\<lambda>vs r. exists_json_each_in (col ''subtypes'' r) vs) @
          condition (filter_years f) (\<lambda>vs r. in_params (col ''year'' r) vs) @
          condition (filter_sets f) (\<lambda>vs r. in_params (col ''setId'' r) vs) @
          condition (filter_rarities f) (\<lambda>vs r. in_params (col ''rarity'' r) vs))"

text \<open>\<^verbatim>\<open>WHERE c1 AND ... AND cn\<close> on one row (no \<^verbatim>\<open>WHERE\<close> when there is no condition).\<close>

definition where_all :: "(row \<Rightarrow> error + bool) list \<Rightarrow> row \<Rightarrow> error + bool" where
  "where_all conds r = bindE (sequenceE (map (\<lambda>c. c r) conds)) (\<lambda>bs. Inr (list_all id bs))"

fun select_where :: "(row \<Rightarrow> error + bool) \<Rightarrow> row list \<Rightarrow> error + row list" where
  "select_where p [] = Inr []"
| "select_where p (r # rs) =
     bindE (p r) (\<lambda>b. bindE (select_where p rs) (\<lambda>rest. Inr (if b then r # rest else rest)))"

definition getAllCards :: "filters option \<Rightarrow> db \<Rightarrow> error + json list" where
  "getAllCards fo db =
     bindE (select_where (where_all (conditions fo)) (cards_join_sets db)) (\<lambda>selected.
       sequenceE (map transformCardRow selected))"

subsection \<open>getPokemonGrouped\<close>

text \<open>
  The order of SQLite values: \<^verbatim>\<open>NULL\<close>, then integers, then texts byte by byte.
  \<^verbatim>\<open>ORDER BY\<close> is modelled as a stable sort (rows with equal keys keep the table's
  order; SQL leaves their order open).
\<close>

fun sql_le :: "sqlval \<Rightarrow> sqlval \<Rightarrow> bool" where
  "sql_le SNull b = True"
| "sql_le a SNull = False"
| "sql_le (SInt a) (SInt b) = (a \<le> b)"
| "sql_le (SInt a) b = True"
| "sql_le a (SInt b) = False"
| "sql_le a b =
     (case text_of a of None \<Rightarrow> True
      | Some x \<Rightarrow> (case text_of b of None \<Rightarrow> False | Some y \<Rightarrow> x \<le> y))"

fun insert_by :: "('a \<Rightarrow> 'a \<Rightarrow> bool) \<Rightarrow> 'a \<Rightarrow> 'a list \<Rightarrow> 'a list" where
  "insert_by le x [] = [x]"
| "insert_by le x (y # ys) = (if le x y then x # y # ys else y # insert_by le x ys)"

definition order_by :: "string \<Rightarrow> row list \<Rightarrow> row list" where
  "order_by c rs = foldr (insert_by (\<lambda>a b. sql_le (col c a) (col c b))) rs []"

text \<open>
  \<^verbatim>\<open>WHERE c.nationalPokedexNumbers != '[]' AND c.nationalPokedexNumbers IS NOT NULL
     ORDER BY c.nationalPokedexNumbers\<close>
\<close>

definition has_pokedex_numbers :: "row \<Rightarrow> bool" where
  "has_pokedex_numbers r =
     (sql_eq (col ''nationalPokedexNumbers'' r) (SText ''[]'') = Some False
      \<and> col ''nationalPokedexNumbers'' r \<noteq> SNull)"

definition grouped_rows :: "db \<Rightarrow> row list" where
  "grouped_rows db = order_by ''nationalPokedexNumbers'' (filter has_pokedex_numbers (cards_join_sets db))"

record grouping =
  nationalPokedexNumber :: int
  group_name :: js
  group_cards :: "json list"

text \<open>
  \<^verbatim>\<open>Array.isArray(x) ? x : JSON.parse(x || '[]')\<close> on the card's decoded
  \<^verbatim>\<open>nationalPokedexNumbers\<close>, read as the list of numbers the declared type
  \<^verbatim>\<open>number[]\<close> promises. An array with an element that is not a number is outside the
  model (the comparator of the final sort is not a number there): \<open>Inl TypeError\<close>.
  A value that is not an array is falsy (no number), or is parsed as JSON text and
  then iterated, which throws for the values \<^verbatim>\<open>JSON.stringify\<close> can have written.
\<close>

fun as_number :: "json \<Rightarrow> error + int" where
  "as_number (JNum n) = Inr n"
| "as_number j = Inl TypeError"

fun pokedexNumbers :: "js \<Rightarrow> error + int list" where
  "pokedexNumbers (Val (JArr xs)) = sequenceE (map as_number xs)"
| "pokedexNumbers (Val (JObj kvs)) = Inl SyntaxError"
| "pokedexNumbers (Val (JStr s)) = (if s = [] then Inr [] else Inl SyntaxError)"
| "pokedexNumbers x = (if truthy x then Inl TypeError else Inr [])"

text \<open>
  \<^verbatim>\<open>pokemonByPokedex\<close>: the groups by number, in the order the numbers were first seen.
  The body of the inner loop creates the group when the number has none, then pushes
  the card.
\<close>

definition add_card :: "json \<Rightarrow> js \<Rightarrow> int \<Rightarrow> grouping list \<Rightarrow> grouping list" where
  "add_card c name pokedexNum groups =
     map (\<lambda>g. if nationalPokedexNumber g = pokedexNum
               then g\<lparr> group_cards := group_cards g @ [c] \<rparr> else g)
       (if list_ex (\<lambda>g. nationalPokedexNumber g = pokedexNum) groups then groups
        else groups @ [\<lparr> nationalPokedexNumber = pokedexNum, group_name = name, group_cards = [] \<rparr>])"

fun group_rows :: "row list \<Rightarrow> grouping list \<Rightarrow> error + grouping list" where
  "group_rows [] groups = Inr groups"
| "group_rows (r # rs) groups =
     bindE (transformCardRow r) (\<lambda>c.
     bindE (get_prop ''nationalPokedexNumbers'' (Val c)) (\<lambda>ns.
     bindE (pokedexNumbers ns) (\<lambda>nums.
     bindE (get_prop ''name'' (Val c)) (\<lambda>name.
       group_rows rs (fold (add_card c name) nums groups)))))"

text \<open>
  \<^verbatim>\<open>Object.values(pokemonByPokedex).sort((a, b) => a.nationalPokedexNumber - b.nationalPokedexNumber)\<close>:
  the sort is stable, and the numbers of the groups are distinct, so the order in
  which \<^verbatim>\<open>Object.values\<close> lists the groups does not show in the result.
\<close>

definition getPokemonGrouped :: "db \<Rightarrow> error + grouping list" where
  "getPokemonGrouped db =
     bindE (group_rows (grouped_rows db) []) (\<lambda>groups.
       Inr (sort_key nationalPokedexNumber groups))"

section \<open>What the specification says, and example data\<close>

text \<open>
  The definitions of this section are not part of the program. They write down, in
  the words of the specification, what the program is compared with, and name the
  rows and the sample records that the statements below talk about.
\<close>

text \<open>
  The year the specification derives from a release date: the text before the first
  \<^verbatim>\<open>/\<close> when there is a release date, and \<^verbatim>\<open>NULL\<close> when there is none (absent,
  \<^verbatim>\<open>null\<close> or empty: what JavaScript takes as false).
\<close>

definition derived_year :: "js \<Rightarrow> sqlval" where
  "derived_year releaseDate =
     (case releaseDate of
        Val (JStr d) \<Rightarrow> if d = [] then SNull else SText (takeWhile (\<lambda>c. c \<noteq> CHR ''/'') d)
      | v \<Rightarrow> SNull)"

text \<open>The row that \<open>insertSet\<close> writes for a set record, when it succeeds.\<close>

definition set_row :: "js \<Rightarrow> row" where
  "set_row s =
     (case set_year s of
        Inl e \<Rightarrow> []
      | Inr year \<Rightarrow>
          (case bound (set_params s year) of Inl e \<Rightarrow> [] | Inr vs \<Rightarrow> new_row Sets sets_columns vs))"

definition example_set :: json where
  "example_set = JObj [(''id'', JStr ''sv1''), (''name'', JStr ''Scarlet & Violet''),
                       (''releaseDate'', JStr ''2023/03/31'')]"

text \<open>\<^verbatim>\<open>card.set?.id\<close>: the card's nested set reference.\<close>

definition set_reference :: "json \<Rightarrow> js" where
  "set_reference c = opt_prop ''id'' (opt_prop ''set'' (Val c))"

text \<open>The row that \<open>insertCard\<close> writes for a card record, when it succeeds.\<close>

definition card_row :: "js \<Rightarrow> row" where
  "card_row c =
     (case card_setId c of
        Inl e \<Rightarrow> []
      | Inr setId \<Rightarrow>
          (case bound (card_params c setId) of Inl e \<Rightarrow> [] | Inr vs \<Rightarrow> new_row Cards cards_columns vs))"

text \<open>Two sets, a card without a nested set and a card with one.\<close>

definition example_sets :: "json list" where
  "example_sets =
     [JObj [(''id'', JStr ''base1''), (''name'', JStr ''Base''), (''releaseDate'', JStr ''1999/01/09'')],
      JObj [(''id'', JStr ''xy7''), (''name'', JStr ''Ancient Origins'')]]"

definition card_without_set :: json where
  "card_without_set = JObj [(''id'', JStr ''base1-4''), (''name'', JStr ''Charizard'')]"

definition card_with_set :: json where
  "card_with_set = JObj [(''id'', JStr ''promo-1''), (''name'', JStr ''Hoopa''),
                         (''set'', JObj [(''id'', JStr ''xy7''), (''name'', JStr ''Ancient Origins'')])]"

definition store_with_sets :: db where
  "store_with_sets = snd (migrateSets [Inr (JArr example_sets)] empty_db)"

text \<open>
  A piece of the program does not depend on table \<open>T\<close>: run on a store whose table
  \<open>T\<close> was replaced, it gives the same outcome and the same store, with \<open>T\<close> replaced
  the same way. In particular it leaves \<open>T\<close> as it was.
\<close>

definition independent_of :: "table_name \<Rightarrow> prog \<Rightarrow> bool" where
  "independent_of T p = (\<forall>db x. p (put T x db) = (fst (p db), put T x (snd (p db))))"

text \<open>Two outcomes agree outside the tables \<open>W\<close>: the same result, the same rows in every
  table that is not in \<open>W\<close>.\<close>

definition same_outside :: "table_name set \<Rightarrow> (error + unit) \<times> db \<Rightarrow> (error + unit) \<times> db \<Rightarrow> bool" where
  "same_outside W r r' = (fst r = fst r' \<and> (\<forall>t. t \<notin> W \<longrightarrow> rows (snd r) t = rows (snd r') t))"

text \<open>The five steps of the migration that read an external source, the source data
  with the fetch of one of them failing, and the tables each of them writes.\<close>

datatype external_step = TypesStep | MovesStep | AbilitiesStep | SpeciesStep | PokedexStep

fun fail_step :: "external_step \<Rightarrow> error \<Rightarrow> sources \<Rightarrow> sources" where
  "fail_step TypesStep e src = src\<lparr> types_body := Inl e \<rparr>"
| "fail_step MovesStep e src = src\<lparr> moves_body := Inl e \<rparr>"
| "fail_step AbilitiesStep e src = src\<lparr> abilities_body := Inl e \<rparr>"
| "fail_step SpeciesStep e src = src\<lparr> species_body := Inl e \<rparr>"
| "fail_step PokedexStep e src = src\<lparr> pokedex_list_body := Inl e \<rparr>"

fun step_prog :: "external_step \<Rightarrow> sources \<Rightarrow> prog" where
  "step_prog TypesStep src = migratePokemonTypes (types_body src)"
| "step_prog MovesStep src = migratePokemonMoves (moves_body src)"
| "step_prog AbilitiesStep src = migratePokemonAbilities (abilities_body src)"
| "step_prog SpeciesStep src = migratePokemonSpecies (species_body src)"
| "step_prog PokedexStep src = migratePokedexes (pokedex_list_body src) (pokedex_body src)"

fun step_tables :: "external_step \<Rightarrow> table_name set" where
  "step_tables TypesStep = {PokemonTypes}"
| "step_tables MovesStep = {PokemonMoves}"
| "step_tables AbilitiesStep = {PokemonAbilities}"
| "step_tables SpeciesStep = {PokemonSpecies}"
| "step_tables PokedexStep = {Pokedexes, PokedexEntries}"

text \<open>Source data for a whole migration: two sets, two cards, no deck file, one type,
  one move, one ability, one species, and one pokedex with two entries.\<close>

definition example_pokedex :: json where
  "example_pokedex =
     JObj [(''id'', JNum 1), (''name'', JStr ''national''), (''is_main_series'', JBool True),
           (''pokemon_entries'', JArr
              [JObj [(''entry_number'', JNum 1),
                     (''pokemon_species'', JObj [(''name'', JStr ''bulbasaur''),
                        (''url'', JStr ''https://pokeapi.co/api/v2/pokemon-species/1/'')])],
               JObj [(''entry_number'', JNum 2),
                     (''pokemon_species'', JObj [(''name'', JStr ''ivysaur''),
                        (''url'', JStr ''https://pokeapi.co/api/v2/pokemon-species/2/'')])]])]"

definition example_sources :: sources where
  "example_sources =
     \<lparr> set_files = [Inr (JArr example_sets)],
       card_files = [Inr (JArr [card_without_set, card_with_set])],
       deck_files = [],
       types_body = Inr (JArr [JObj [(''id'', JStr ''fire''), (''name'', JStr ''Fire''),
                                     (''isCanonical'', JBool True)]]),
       moves_body = Inr (JArr [JObj [(''id'', JStr ''ember''), (''name'', JStr ''Ember''),
                                     (''power'', JNum 40)]]),
       abilities_body = Inr (JArr [JObj [(''id'', JStr ''blaze''), (''name'', JStr ''Blaze'')]]),
       species_body = Inr (JArr [JObj [(''nationalDexNumber'', JNum 4),
                                       (''name'', JStr ''Charmander'')]]),
       pokedex_list_body = Inr (JObj [(''results'', JArr
          [JObj [(''name'', JStr ''national''),
                 (''url'', JStr ''https://pokeapi.co/api/v2/pokedex/1/'')]])]),
       pokedex_body = (\<lambda>url. if url = Val (JStr ''https://pokeapi.co/api/v2/pokedex/1/'')
                             then Inr example_pokedex else Inl FetchError) \<rparr>"

text \<open>
  A batch is written all or nothing: the store afterwards is the store before, or it
  is the store in which the insert of every row of the batch, in order, succeeded.
\<close>

definition all_or_nothing :: "('a \<Rightarrow> prog) \<Rightarrow> 'a list \<Rightarrow> db \<Rightarrow> db \<Rightarrow> bool" where
  "all_or_nothing body xs db db' = (db' = db \<or> for_of body xs db = (Inr (), db'))"

text \<open>The rows of a batch: the records of the local files, and the elements of a fetched
  body (none when the files cannot be loaded, the fetch failed, or the body cannot be
  iterated).\<close>

definition local_batch :: "(error + json) list \<Rightarrow> js list" where
  "local_batch fs = (case load_files fs of Inl e \<Rightarrow> [] | Inr xs \<Rightarrow> map Val xs)"

definition js_batch :: "js \<Rightarrow> js list" where
  "js_batch v = (case iterate v of Inl e \<Rightarrow> [] | Inr xs \<Rightarrow> xs)"

definition remote_batch :: "error + json \<Rightarrow> js list" where
  "remote_batch body = (case body of Inl e \<Rightarrow> [] | Inr j \<Rightarrow> js_batch (Val j))"

definition deck_batch :: "string \<times> (error + json) \<Rightarrow> normalized_deck list" where
  "deck_batch f =
     (case snd f of
        Inl e \<Rightarrow> []
      | Inr decks \<Rightarrow> (case normalize_decks (fst f) decks of Inl e \<Rightarrow> [] | Inr ds \<Rightarrow> ds))"

definition entries_batch :: "js \<Rightarrow> js list" where
  "entries_batch pokedexData = js_batch (opt_prop ''pokemon_entries'' pokedexData)"

text \<open>A card record without a name, a pokedex without a name, and two deck files of which
  the second is named after no set.\<close>

definition nameless_card :: json where
  "nameless_card = JObj [(''id'', JStr ''base1-5'')]"

definition nameless_pokedex :: json where
  "nameless_pokedex = JObj [(''id'', JNum 2)]"

definition two_pokedex_list :: json where
  "two_pokedex_list =
     JObj [(''results'', JArr
        [JObj [(''name'', JStr ''national''), (''url'', JStr ''https://pokeapi.co/api/v2/pokedex/1/'')],
         JObj [(''name'', JStr ''kanto''), (''url'', JStr ''https://pokeapi.co/api/v2/pokedex/2/'')]])]"

definition two_pokedex_bodies :: "js \<Rightarrow> error + json" where
  "two_pokedex_bodies url =
     (if url = Val (JStr ''https://pokeapi.co/api/v2/pokedex/1/'') then Inr example_pokedex
      else if url = Val (JStr ''https://pokeapi.co/api/v2/pokedex/2/'') then Inr nameless_pokedex
      else Inl FetchError)"

definition two_deck_files :: "(string \<times> (error + json)) list" where
  "two_deck_files =
     [(''base1'', Inr (JArr [JObj [(''name'', JStr ''Overgrowth''), (''cards'', JArr [])]])),
      (''base9'', Inr (JArr [JObj [(''name'', JStr ''Zap''), (''cards'', JArr [])]]))]"





text \<open>
  A store as the schema and the migration leave it, as far as the card queries read
  it: a card row has the columns of the table, and each column that holds encoded
  JSON holds \<^verbatim>\<open>NULL\<close> or a text that \<^verbatim>\<open>JSON.stringify\<close> wrote (the twelve such columns
  of a card, and the images of a set).
\<close>

definition json_column :: "sqlval \<Rightarrow> bool" where
  "json_column v = (case v of SNull \<Rightarrow> True | SJson j \<Rightarrow> True | SInt n \<Rightarrow> False | SText s \<Rightarrow> False)"

definition card_json_columns :: "string list" where
  "card_json_columns =
     [''subtypes'', ''types'', ''evolvesTo'', ''abilities'', ''attacks'', ''weaknesses'',
      ''resistances'', ''retreatCost'', ''nationalPokedexNumbers'', ''legalities'', ''images'',
      ''rules'']"

definition card_row_ok :: "row \<Rightarrow> bool" where
  "card_row_ok c =
     (map fst c = map fst (columns Cards) \<and> list_all (\<lambda>k. json_column (col k c)) card_json_columns)"

definition stored_ok :: "db \<Rightarrow> bool" where
  "stored_ok db =
     (list_all card_row_ok (rows db Cards)
      \<and> list_all (\<lambda>s. json_column (col ''images'' s)) (rows db Sets))"

text \<open>The value \<^verbatim>\<open>JSON.parse(x || d)\<close> has for such a column.\<close>

definition decoded :: "sqlval \<Rightarrow> json \<Rightarrow> json" where
  "decoded v d = (case v of SJson j \<Rightarrow> j | x \<Rightarrow> d)"

text \<open>The card record that \<open>transformCardRow\<close> returns for a row.\<close>

definition card_record :: "row \<Rightarrow> json" where
  "card_record r = (case transformCardRow r of Inl e \<Rightarrow> JNull | Inr c \<Rightarrow> c)"

text \<open>The five columns that the join adds to a card row.\<close>

definition joined_columns_ok :: "row \<Rightarrow> bool" where
  "joined_columns_ok e =
     (map fst e = [''setName'', ''series'', ''releaseDate'', ''setImages'', ''year'']
      \<and> json_column (col ''setImages'' e))"

text \<open>A store with one card that belongs to no set: the record has neither an id nor a
  nested set, so the migration stores \<^verbatim>\<open>NULL\<close> as its \<^verbatim>\<open>setId\<close>.\<close>

definition orphan_store :: db where
  "orphan_store = snd (migrateCards [Inr (JArr [JObj [(''name'', JStr ''Grass Energy'')]])] empty_db)"

definition orphan_row :: row where
  "orphan_row =
     [(''id'', SNull), (''name'', SText ''Grass Energy''), (''supertype'', SNull),
      (''subtypes'', SJson (JArr [])), (''level'', SNull), (''hp'', SNull),
      (''types'', SJson (JArr [])), (''evolvesFrom'', SNull), (''evolvesTo'', SJson (JArr [])),
      (''abilities'', SJson (JArr [])), (''attacks'', SJson (JArr [])),
      (''weaknesses'', SJson (JArr [])), (''resistances'', SJson (JArr [])),
      (''retreatCost'', SJson (JArr [])), (''convertedRetreatCost'', SNull), (''number'', SNull),
      (''artist'', SNull), (''rarity'', SNull), (''flavorText'', SNull),
      (''nationalPokedexNumbers'', SJson (JArr [])), (''legalities'', SNull), (''images'', SNull),
      (''rules'', SJson (JArr [])), (''setId'', SNull)]"























section \<open>Properties\<close>

subsection \<open>Auxiliary facts\<close>

lemma rows_put: "rows (put t x db) t' = (if t' = t then x else rows db t')"
  by (cases t; cases t'; simp)

lemma put_twist: "t \<noteq> t' \<Longrightarrow> put t x (put t' y db) = put t' y (put t x db)"
  by (cases t; cases t'; simp)

lemma put_rows: "put t (rows db t) db = db"
  by (cases t; simp)

lemma db_eqI: "(\<And>t. rows d t = rows d' t) \<Longrightarrow> d = d'"
proof -
  assume r: "\<And>t. rows d t = rows d' t"
  show "d = d'"
    using r[of Sets] r[of Cards] r[of Decks] r[of PokemonTypes] r[of PokemonMoves]
      r[of PokemonAbilities] r[of PokemonSpecies] r[of Pokedexes] r[of PokedexEntries]
    by (cases d; cases d'; simp)
qed

lemma split_not_Nil: "split sep s \<noteq> []"
  by (induction s) (auto split: list.splits)

lemma hd_split: "hd (split sep s) = takeWhile (\<lambda>c. c \<noteq> sep) s"
  by (induction s) (auto split: list.splits simp: split_not_Nil)

lemma at_index_split_0: "at_index (split sep s) 0 = Val (JStr (takeWhile (\<lambda>c. c \<noteq> sep) s))"
  using split_not_Nil[of sep s] hd_split[of sep s]
  by (cases "split sep s") (auto simp: at_index_def)

lemma prog_result: "fst r = Inr () \<Longrightarrow> r = (Inr (), snd r)"
  by (cases r) auto

lemma bindE_Inr_iff: "bindE m f = Inr y \<longleftrightarrow> (\<exists>x. m = Inr x \<and> f x = Inr y)"
  by (cases m) (auto simp: bindE_def)

lemma sequenceE_map_Inr: "sequenceE (map Inr xs) = Inr xs"
  by (induction xs) auto

lemma sequenceE_Inr_iff: "sequenceE ms = Inr xs \<longleftrightarrow> ms = map Inr xs"
proof
  show "sequenceE ms = Inr xs \<Longrightarrow> ms = map Inr xs"
    by (induction ms arbitrary: xs) (auto split: sum.splits)
qed (simp add: sequenceE_map_Inr)

lemma transaction_success: "transaction p db = (Inr u, db') \<longleftrightarrow> p db = (Inr u, db')"
  by (auto simp: transaction_def split: prod.splits sum.splits)

lemma transaction_failure: "fst (transaction p db) = Inl e \<Longrightarrow> snd (transaction p db) = db"
  by (auto simp: transaction_def split: prod.splits sum.splits)

lemma for_of_append:
  "for_of body (xs @ ys) db =
     (case for_of body xs db of (Inl e, db1) \<Rightarrow> (Inl e, db1) | (Inr u, db1) \<Rightarrow> for_of body ys db1)"
  by (induction xs arbitrary: db) (auto split: prod.splits sum.splits)

text \<open>The row a successful insert writes into a table without rowid alias.\<close>

lemma insert_or_replace_success:
  assumes "insert_or_replace t cs vs db = (Inr u, db')" "\<not> integer_pk t"
  shows "db' = put t (filter (\<lambda>old. sql_eq (col ''id'' old) (col ''id'' (new_row t cs vs)) \<noteq> Some True) (rows db t)
                 @ [new_row t cs vs]) db"
  using assms
  by (auto simp: insert_or_replace_def with_rowid_def Let_def split: if_splits)

lemma for_of_keeps_row:
  assumes body: "\<And>x db db'. body x db = (Inr (), db') \<Longrightarrow>
            rows db' t = filter (\<lambda>old. sql_eq (col ''id'' old) (key x) \<noteq> Some True) (rows db t) @ [row_of x]"
    and run: "for_of body post db = (Inr (), db')"
    and r: "r \<in> set (rows db t)"
    and keys: "\<forall>y\<in>set post. sql_eq (col ''id'' r) (key y) \<noteq> Some True"
  shows "r \<in> set (rows db' t)"
  using run r keys
proof (induction post arbitrary: db)
  case Nil
  then show ?case by simp
next
  case (Cons y ys)
  obtain db1 where y: "body y db = (Inr (), db1)" and rest: "for_of body ys db1 = (Inr (), db')"
    using Cons.prems(1) by (auto split: prod.splits sum.splits)
  have "r \<in> set (rows db1 t)"
    using body[OF y] Cons.prems(2,3) by auto
  then show ?case
    using Cons.IH[OF rest] Cons.prems(3) by auto
qed

lemma for_of_last_write:
  assumes body: "\<And>x db db'. body x db = (Inr (), db') \<Longrightarrow>
            rows db' t = filter (\<lambda>old. sql_eq (col ''id'' old) (key x) \<noteq> Some True) (rows db t) @ [row_of x]"
    and run: "for_of body (pre @ x # post) db = (Inr (), db')"
    and keys: "\<forall>y\<in>set post. sql_eq (col ''id'' (row_of x)) (key y) \<noteq> Some True"
  shows "row_of x \<in> set (rows db' t)"
proof -
  obtain db1 where "for_of body pre db = (Inr (), db1)" and 2: "for_of body (x # post) db1 = (Inr (), db')"
    using run by (auto simp: for_of_append split: prod.splits sum.splits)
  then obtain db2 where x: "body x db1 = (Inr (), db2)" and rest: "for_of body post db2 = (Inr (), db')"
    by (auto split: prod.splits sum.splits)
  show ?thesis
  proof (rule for_of_keeps_row[where body = body and key = key and row_of = row_of and post = post and db = db2])
    show "\<And>x db db'. body x db = (Inr (), db') \<Longrightarrow>
            rows db' t = filter (\<lambda>old. sql_eq (col ''id'' old) (key x) \<noteq> Some True) (rows db t) @ [row_of x]"
      by (rule body)
    show "for_of body post db2 = (Inr (), db')" by (rule rest)
    show "row_of x \<in> set (rows db2 t)" using body[OF x] by simp
    show "\<forall>y\<in>set post. sql_eq (col ''id'' (row_of x)) (key y) \<noteq> Some True" by (rule keys)
  qed
qed

lemma bound_Inr_iff: "bound args = Inr vs \<longleftrightarrow> (\<exists>xs. args = map Inr xs \<and> map bind_param xs = map Inr vs)"
  by (auto simp: bound_def bindE_Inr_iff sequenceE_Inr_iff)

lemma run_success:
  assumes "run t cs args db = (Inr u, db')" "\<not> integer_pk t"
  shows "\<exists>vs. bound args = Inr vs \<and>
     db' = put t (filter (\<lambda>old. sql_eq (col ''id'' old) (col ''id'' (new_row t cs vs)) \<noteq> Some True) (rows db t)
                 @ [new_row t cs vs]) db"
  using assms insert_or_replace_success[of t cs _ db u db']
  by (auto simp: run_def split: sum.splits)

lemma insertSet_success:
  assumes "insertSet s db = (Inr (), db')"
  shows "rows db' Sets = filter (\<lambda>old. sql_eq (col ''id'' old) (col ''id'' (set_row s)) \<noteq> Some True) (rows db Sets) @ [set_row s]"
proof -
  obtain year where y: "set_year s = Inr year" and r: "run Sets sets_columns (set_params s year) db = (Inr (), db')"
    using assms by (auto simp: insertSet_def split: sum.splits)
  from run_success[OF r] obtain vs where "bound (set_params s year) = Inr vs"
    and "db' = put Sets (filter (\<lambda>old. sql_eq (col ''id'' old) (col ''id'' (new_row Sets sets_columns vs)) \<noteq> Some True) (rows db Sets)
                 @ [new_row Sets sets_columns vs]) db"
    by auto
  then show ?thesis using y by (simp add: set_row_def)
qed

lemma set_row_cols:
  assumes "length vs = 11"
  shows "col ''id'' (new_row Sets sets_columns vs) = apply_affinity TEXT (vs ! 0)"
    and "col ''year'' (new_row Sets sets_columns vs) = apply_affinity TEXT (vs ! 10)"
proof -
  obtain v0 v1 v2 v3 v4 v5 v6 v7 v8 v9 v10 where "vs = [v0, v1, v2, v3, v4, v5, v6, v7, v8, v9, v10]"
    using assms by (auto simp: length_Suc_conv eval_nat_numeral)
  then show "col ''id'' (new_row Sets sets_columns vs) = apply_affinity TEXT (vs ! 0)"
    and "col ''year'' (new_row Sets sets_columns vs) = apply_affinity TEXT (vs ! 10)"
    by (simp_all add: new_row_def sets_columns_def col_def)
qed

lemma get_prop_cases:
  assumes "get_prop k x = Inr v"
  shows "v = Undefined \<or> (\<exists>j. v = Val j)"
  using assms by (cases "(k, x)" rule: get_prop.cases) (auto split: option.splits)

lemma set_year_cases:
  assumes "set_year s = Inr year"
  shows "bind_param year = Inr (derived_year (opt_prop ''releaseDate'' s))"
proof -
  obtain rd where rd: "get_prop ''releaseDate'' s = Inr rd"
    using assms by (cases "get_prop ''releaseDate'' s") (auto simp: set_year_def bindE_def)
  have opt: "opt_prop ''releaseDate'' s = rd"
    using rd by (simp add: opt_prop_def)
  from get_prop_cases[OF rd] show ?thesis
  proof
    assume "rd = Undefined"
    then show ?thesis using assms rd opt by (auto simp: set_year_def bindE_def derived_year_def)
  next
    assume "\<exists>j. rd = Val j"
    then obtain j where j: "rd = Val j" by blast
    show ?thesis
      using assms rd opt j
      by (cases j) (auto simp: set_year_def bindE_def derived_year_def at_index_split_0 split: if_splits)
  qed
qed

lemma map_Inr_eq_Cons: "x # xs = map Inr ys \<longleftrightarrow> (\<exists>z zs. ys = z # zs \<and> x = Inr z \<and> xs = map Inr zs)"
  by (cases ys) auto

lemma bound_set_params:
  assumes "bound (set_params s year) = Inr vs"
  shows "length vs = 11"
    and "\<exists>x. get_prop ''id'' s = Inr x \<and> bind_param x = Inr (vs ! 0)"
    and "bind_param year = Inr (vs ! 10)"
proof -
  from assms obtain xs where xs: "set_params s year = map Inr xs" and b: "map bind_param xs = map Inr vs"
    by (auto simp: bound_Inr_iff)
  have len: "length xs = 11"
    using arg_cong[OF xs, of length] by (simp add: set_params_def)
  have lv: "length vs = length xs"
    using arg_cong[OF b, of length] by simp
  show "length vs = 11" using len lv by simp
  have nth: "\<And>i. i < 11 \<Longrightarrow> bind_param (xs ! i) = Inr (vs ! i)"
    using arg_cong[OF b, of "\<lambda>l. l ! i" for i] len lv by (metis length_map nth_map)
  have x0: "get_prop ''id'' s = Inr (xs ! 0)"
    using arg_cong[OF xs, of "\<lambda>l. l ! 0"] len by (simp add: set_params_def)
  have x10: "Inr year = (Inr (xs ! 10) :: error + js)"
    using arg_cong[OF xs, of "\<lambda>l. l ! 10"] len by (simp add: set_params_def)
  show "\<exists>x. get_prop ''id'' s = Inr x \<and> bind_param x = Inr (vs ! 0)"
    using x0 nth[of 0] by auto
  show "bind_param year = Inr (vs ! 10)"
    using x10 nth[of 10] by simp
qed

lemma derived_year_text: "apply_affinity TEXT (derived_year x) = derived_year x"
  by (auto simp: derived_year_def split: js.splits json.splits)

lemma set_row_written:
  assumes "insertSet s db = (Inr (), db')"
  shows "col ''year'' (set_row s) = derived_year (opt_prop ''releaseDate'' s)"
    and "\<And>i. get_prop ''id'' s = Inr (Val (JStr i)) \<Longrightarrow> col ''id'' (set_row s) = SText i"
proof -
  obtain year where y: "set_year s = Inr year" and r: "run Sets sets_columns (set_params s year) db = (Inr (), db')"
    using assms by (auto simp: insertSet_def split: sum.splits)
  from run_success[OF r] obtain vs where vs: "bound (set_params s year) = Inr vs" by auto
  have row: "set_row s = new_row Sets sets_columns vs"
    using y vs by (simp add: set_row_def)
  note b = bound_set_params[OF vs]
  have "vs ! 10 = derived_year (opt_prop ''releaseDate'' s)"
    using b(3) set_year_cases[OF y] by simp
  then show "col ''year'' (set_row s) = derived_year (opt_prop ''releaseDate'' s)"
    using row set_row_cols(2)[OF b(1)] by (simp add: derived_year_text)
  show "col ''id'' (set_row s) = SText i" if "get_prop ''id'' s = Inr (Val (JStr i))" for i
  proof -
    have "vs ! 0 = SText i" using that b(2) by auto
    then show ?thesis using row set_row_cols(1)[OF b(1)] by simp
  qed
qed

lemma set_row_key:
  assumes "get_prop ''id'' s = Inr (Val (JStr j))"
  shows "col ''id'' (set_row s) = SText j \<or> col ''id'' (set_row s) = SNull"
proof (cases "set_year s")
  case (Inl e)
  then show ?thesis by (simp add: set_row_def col_def)
next
  case (Inr year)
  show ?thesis
  proof (cases "bound (set_params s year)")
    case (Inl e)
    then show ?thesis using Inr by (simp add: set_row_def col_def)
  next
    case vs: (Inr vs)
    note b = bound_set_params[OF vs]
    have "set_row s = new_row Sets sets_columns vs"
      using Inr vs by (simp add: set_row_def)
    moreover have "vs ! 0 = SText j" using assms b(2) by auto
    ultimately show ?thesis
      using set_row_cols(1)[OF b(1)] by simp
  qed
qed

subsection \<open>C9: the year stored for a set\<close>

text \<open>
  Claim C9. For every set record, the year stored at ingestion is the text of
  \<^verbatim>\<open>releaseDate\<close> before the first \<^verbatim>\<open>/\<close> when the record has a release date, and
  \<^verbatim>\<open>NULL\<close> when it has none.

  Stated on the store: when the migration of the set files succeeds, the table holds
  a row with the record's id whose \<^verbatim>\<open>year\<close> is \<open>derived_year\<close> of the record's
  \<^verbatim>\<open>releaseDate\<close>, for every record \<open>s\<close> of the batch that no later record of the
  batch replaces (the records after it have other ids). A record whose
  \<^verbatim>\<open>releaseDate\<close> is something else than a string, \<^verbatim>\<open>null\<close> or a falsy value makes
  the migration throw, so it stores no year at all.
\<close>

theorem migrateSets_year:
  assumes files: "load_files files = Inr (pre @ s # post)"
    and ok: "migrateSets files db = (Inr (), db')"
    and id: "get_prop ''id'' (Val s) = Inr (Val (JStr i))"
    and later: "\<forall>y\<in>set post. \<exists>j. get_prop ''id'' (Val y) = Inr (Val (JStr j)) \<and> j \<noteq> i"
  shows "\<exists>r\<in>set (rows db' Sets). col ''id'' r = SText i
           \<and> col ''year'' r = derived_year (opt_prop ''releaseDate'' (Val s))"
proof -
  have loop: "for_of insertSet (map Val pre @ Val s # map Val post) db = (Inr (), db')"
    using ok files by (simp add: migrateSets_def insertSets_def transaction_success)
  then obtain db1 db2 where s: "insertSet (Val s) db1 = (Inr (), db2)"
    by (auto simp: for_of_append split: prod.splits sum.splits)
  have key: "col ''id'' (set_row (Val s)) = SText i"
    using set_row_written(2)[OF s id] .
  have keys: "\<forall>y\<in>set (map Val post). sql_eq (col ''id'' (set_row (Val s))) (col ''id'' (set_row y)) \<noteq> Some True"
  proof
    fix y assume "y \<in> set (map Val post)"
    then obtain y' where y': "y' \<in> set post" "y = Val y'" by auto
    then obtain j where j: "get_prop ''id'' y = Inr (Val (JStr j))" "j \<noteq> i"
      using later by blast
    show "sql_eq (col ''id'' (set_row (Val s))) (col ''id'' (set_row y)) \<noteq> Some True"
      using set_row_key[OF j(1)] j(2) key by auto
  qed
  have "set_row (Val s) \<in> set (rows db' Sets)"
    by (rule for_of_last_write[where body = insertSet and key = "\<lambda>x. col ''id'' (set_row x)"
          and row_of = set_row, OF insertSet_success loop keys])
  then show ?thesis
    using key set_row_written(1)[OF s] by blast
qed

text \<open>The release date \<^verbatim>\<open>2023/03/31\<close> of the specification gives the year \<^verbatim>\<open>2023\<close>.\<close>

theorem migrateSets_year_witness:
  "load_files [Inr (JArr [example_set])] = Inr [example_set]
   \<and> fst (migrateSets [Inr (JArr [example_set])] empty_db) = Inr ()
   \<and> (\<exists>r\<in>set (rows (snd (migrateSets [Inr (JArr [example_set])] empty_db)) Sets).
         col ''id'' r = SText ''sv1'' \<and> col ''year'' r = SText ''2023'')"
proof -
  have files: "load_files [Inr (JArr [example_set])] = Inr ([] @ example_set # [])"
    by (simp add: load_files_def bindE_def flat_one_def)
  have ok: "fst (migrateSets [Inr (JArr [example_set])] empty_db) = Inr ()"
    by code_simp
  have id: "get_prop ''id'' (Val example_set) = Inr (Val (JStr ''sv1''))"
    by (simp add: example_set_def)
  have year: "derived_year (opt_prop ''releaseDate'' (Val example_set)) = SText ''2023''"
    by (simp add: example_set_def derived_year_def opt_prop_def)
  show ?thesis
    using migrateSets_year[OF files prog_result[OF ok] id] files ok year by simp
qed

subsection \<open>C3: the setId stored for a card\<close>

lemma insertCard_success:
  assumes "insertCard c db = (Inr (), db')"
  shows "rows db' Cards = filter (\<lambda>old. sql_eq (col ''id'' old) (col ''id'' (card_row c)) \<noteq> Some True) (rows db Cards) @ [card_row c]"
proof -
  obtain setId where y: "card_setId c = Inr setId" and r: "run Cards cards_columns (card_params c setId) db = (Inr (), db')"
    using assms by (auto simp: insertCard_def split: sum.splits)
  from run_success[OF r] obtain vs where "bound (card_params c setId) = Inr vs"
    and "db' = put Cards (filter (\<lambda>old. sql_eq (col ''id'' old) (col ''id'' (new_row Cards cards_columns vs)) \<noteq> Some True) (rows db Cards)
                 @ [new_row Cards cards_columns vs]) db"
    by auto
  then show ?thesis using y by (simp add: card_row_def)
qed

lemma card_row_cols:
  assumes "length vs = 24"
  shows "col ''id'' (new_row Cards cards_columns vs) = apply_affinity TEXT (vs ! 0)"
    and "col ''setId'' (new_row Cards cards_columns vs) = apply_affinity TEXT (vs ! 23)"
proof -
  obtain v0 v1 v2 v3 v4 v5 v6 v7 v8 v9 v10 v11 v12 v13 v14 v15 v16 v17 v18 v19 v20 v21 v22 v23
    where "vs = [v0, v1, v2, v3, v4, v5, v6, v7, v8, v9, v10, v11, v12, v13, v14, v15, v16, v17, v18,
                 v19, v20, v21, v22, v23]"
    using assms by (auto simp: length_Suc_conv eval_nat_numeral)
  then show "col ''id'' (new_row Cards cards_columns vs) = apply_affinity TEXT (vs ! 0)"
    and "col ''setId'' (new_row Cards cards_columns vs) = apply_affinity TEXT (vs ! 23)"
    by (simp_all add: new_row_def cards_columns_def col_def)
qed

lemma bound_card_params:
  assumes "bound (card_params c setId) = Inr vs"
  shows "length vs = 24"
    and "\<exists>x. get_prop ''id'' c = Inr x \<and> bind_param x = Inr (vs ! 0)"
    and "bind_param setId = Inr (vs ! 23)"
proof -
  from assms obtain xs where xs: "card_params c setId = map Inr xs" and b: "map bind_param xs = map Inr vs"
    by (auto simp: bound_Inr_iff)
  have len: "length xs = 24"
    using arg_cong[OF xs, of length] by (simp add: card_params_def)
  have lv: "length vs = length xs"
    using arg_cong[OF b, of length] by simp
  show "length vs = 24" using len lv by simp
  have nth: "\<And>i. i < 24 \<Longrightarrow> bind_param (xs ! i) = Inr (vs ! i)"
    using arg_cong[OF b, of "\<lambda>l. l ! i" for i] len lv by (metis length_map nth_map)
  have x0: "get_prop ''id'' c = Inr (xs ! 0)"
    using arg_cong[OF xs, of "\<lambda>l. l ! 0"] len by (simp add: card_params_def)
  have x23: "Inr setId = (Inr (xs ! 23) :: error + js)"
    using arg_cong[OF xs, of "\<lambda>l. l ! 23"] len by (simp add: card_params_def)
  show "\<exists>x. get_prop ''id'' c = Inr x \<and> bind_param x = Inr (vs ! 0)"
    using x0 nth[of 0] by auto
  show "bind_param setId = Inr (vs ! 23)"
    using x23 nth[of 23] by simp
qed

lemma card_setId_cases:
  assumes "card_setId (Val c) = Inr setId" and "get_prop ''id'' (Val c) = Inr (Val (JStr i))"
  shows "\<not> truthy (set_reference c) \<Longrightarrow> i \<noteq> [] \<Longrightarrow> setId = Val (JStr (takeWhile (\<lambda>x. x \<noteq> CHR ''-'') i))"
    and "truthy (set_reference c) \<Longrightarrow> setId = set_reference c"
  using assms
  by (auto simp: card_setId_def bindE_def set_reference_def opt_prop_def at_index_split_0
           split: sum.splits if_splits)

lemma card_row_written:
  assumes "insertCard (Val c) db = (Inr (), db')" and id: "get_prop ''id'' (Val c) = Inr (Val (JStr i))"
  shows "col ''id'' (card_row (Val c)) = SText i"
    and "\<not> truthy (set_reference c) \<Longrightarrow> i \<noteq> [] \<Longrightarrow>
           col ''setId'' (card_row (Val c)) = SText (takeWhile (\<lambda>x. x \<noteq> CHR ''-'') i)"
    and "\<And>sid. set_reference c = Val (JStr sid) \<Longrightarrow> sid \<noteq> [] \<Longrightarrow> col ''setId'' (card_row (Val c)) = SText sid"
proof -
  obtain setId where y: "card_setId (Val c) = Inr setId"
    and r: "run Cards cards_columns (card_params (Val c) setId) db = (Inr (), db')"
    using assms by (auto simp: insertCard_def split: sum.splits)
  from run_success[OF r] obtain vs where vs: "bound (card_params (Val c) setId) = Inr vs" by auto
  have row: "card_row (Val c) = new_row Cards cards_columns vs"
    using y vs by (simp add: card_row_def)
  note b = bound_card_params[OF vs]
  have "vs ! 0 = SText i" using id b(2) by auto
  then show "col ''id'' (card_row (Val c)) = SText i"
    using row card_row_cols(1)[OF b(1)] by simp
  show "col ''setId'' (card_row (Val c)) = SText (takeWhile (\<lambda>x. x \<noteq> CHR ''-'') i)"
    if "\<not> truthy (set_reference c)" "i \<noteq> []"
  proof -
    have "setId = Val (JStr (takeWhile (\<lambda>x. x \<noteq> CHR ''-'') i))"
      using card_setId_cases(1)[OF y id that] .
    then have "vs ! 23 = SText (takeWhile (\<lambda>x. x \<noteq> CHR ''-'') i)" using b(3) by simp
    then show ?thesis using row card_row_cols(2)[OF b(1)] by simp
  qed
  show "col ''setId'' (card_row (Val c)) = SText sid" if "set_reference c = Val (JStr sid)" "sid \<noteq> []" for sid
  proof -
    have "setId = Val (JStr sid)"
      using card_setId_cases(2)[OF y id] that by simp
    then have "vs ! 23 = SText sid" using b(3) by simp
    then show ?thesis using row card_row_cols(2)[OF b(1)] by simp
  qed
qed

lemma card_row_key:
  assumes "get_prop ''id'' c = Inr (Val (JStr j))"
  shows "col ''id'' (card_row c) = SText j \<or> col ''id'' (card_row c) = SNull"
proof (cases "card_setId c")
  case (Inl e)
  then show ?thesis by (simp add: card_row_def col_def)
next
  case (Inr setId)
  show ?thesis
  proof (cases "bound (card_params c setId)")
    case (Inl e)
    then show ?thesis using Inr by (simp add: card_row_def col_def)
  next
    case vs: (Inr vs)
    note b = bound_card_params[OF vs]
    have "card_row c = new_row Cards cards_columns vs"
      using Inr vs by (simp add: card_row_def)
    moreover have "vs ! 0 = SText j" using assms b(2) by auto
    ultimately show ?thesis
      using card_row_cols(1)[OF b(1)] by simp
  qed
qed

text \<open>
  Claim C3. For every card record whose nested set reference is absent but whose
  identifier is a non-empty string, the migration stores as that card's \<^verbatim>\<open>setId\<close> the
  prefix of the identifier before the first \<^verbatim>\<open>-\<close>; when the nested set reference is
  present, its id is stored unchanged.

  Stated on the store, for every record \<open>c\<close> of a batch that the migration of the card
  files stored and that no later record of the batch replaces. The reference
  \<^verbatim>\<open>card.set?.id\<close> is absent when it is falsy in JavaScript (no \<^verbatim>\<open>set\<close>, no \<^verbatim>\<open>id\<close> in
  it, \<^verbatim>\<open>null\<close>, or the empty string) and present when it is a non-empty string.
\<close>

theorem migrateCards_setId:
  assumes files: "load_files files = Inr (pre @ c # post)"
    and ok: "migrateCards files db = (Inr (), db')"
    and id: "get_prop ''id'' (Val c) = Inr (Val (JStr i))"
    and later: "\<forall>y\<in>set post. \<exists>j. get_prop ''id'' (Val y) = Inr (Val (JStr j)) \<and> j \<noteq> i"
  shows "\<exists>r\<in>set (rows db' Cards). col ''id'' r = SText i
           \<and> (\<not> truthy (set_reference c) \<and> i \<noteq> []
                \<longrightarrow> col ''setId'' r = SText (takeWhile (\<lambda>x. x \<noteq> CHR ''-'') i))
           \<and> (\<forall>sid. set_reference c = Val (JStr sid) \<and> sid \<noteq> [] \<longrightarrow> col ''setId'' r = SText sid)"
proof -
  have loop: "for_of insertCard (map Val pre @ Val c # map Val post) db = (Inr (), db')"
    using ok files by (simp add: migrateCards_def insertCards_def transaction_success)
  then obtain db1 db2 where c: "insertCard (Val c) db1 = (Inr (), db2)"
    by (auto simp: for_of_append split: prod.splits sum.splits)
  note w = card_row_written[OF c id]
  have keys: "\<forall>y\<in>set (map Val post). sql_eq (col ''id'' (card_row (Val c))) (col ''id'' (card_row y)) \<noteq> Some True"
  proof
    fix y assume "y \<in> set (map Val post)"
    then obtain y' where y': "y' \<in> set post" "y = Val y'" by auto
    then obtain j where j: "get_prop ''id'' y = Inr (Val (JStr j))" "j \<noteq> i"
      using later by blast
    show "sql_eq (col ''id'' (card_row (Val c))) (col ''id'' (card_row y)) \<noteq> Some True"
      using card_row_key[OF j(1)] j(2) w(1) by auto
  qed
  have "card_row (Val c) \<in> set (rows db' Cards)"
    by (rule for_of_last_write[where body = insertCard and key = "\<lambda>x. col ''id'' (card_row x)"
          and row_of = card_row, OF insertCard_success loop keys])
  then show ?thesis
    using w by blast
qed

theorem migrateCards_setId_witness:
  "fst (migrateCards [Inr (JArr [card_without_set, card_with_set])] store_with_sets) = Inr ()
   \<and> (\<exists>r\<in>set (rows (snd (migrateCards [Inr (JArr [card_without_set, card_with_set])] store_with_sets)) Cards).
         col ''id'' r = SText ''base1-4'' \<and> col ''setId'' r = SText ''base1'')
   \<and> (\<exists>r\<in>set (rows (snd (migrateCards [Inr (JArr [card_without_set, card_with_set])] store_with_sets)) Cards).
         col ''id'' r = SText ''promo-1'' \<and> col ''setId'' r = SText ''xy7'')"
proof -
  let ?files = "[Inr (JArr [card_without_set, card_with_set])]"
  have f1: "load_files ?files = Inr ([] @ card_without_set # [card_with_set])"
    and f2: "load_files ?files = Inr ([card_without_set] @ card_with_set # [])"
    by (simp_all add: load_files_def bindE_def flat_one_def)
  have ok: "fst (migrateCards ?files store_with_sets) = Inr ()"
    by code_simp
  have id1: "get_prop ''id'' (Val card_without_set) = Inr (Val (JStr ''base1-4''))"
    and id2: "get_prop ''id'' (Val card_with_set) = Inr (Val (JStr ''promo-1''))"
    by (simp_all add: card_without_set_def card_with_set_def)
  have r1: "\<not> truthy (set_reference card_without_set)"
    and r2: "set_reference card_with_set = Val (JStr ''xy7'')"
    by (simp_all add: set_reference_def opt_prop_def card_without_set_def card_with_set_def)
  have "\<exists>r\<in>set (rows (snd (migrateCards ?files store_with_sets)) Cards).
          col ''id'' r = SText ''base1-4'' \<and> col ''setId'' r = SText ''base1''"
    using migrateCards_setId[OF f1 prog_result[OF ok] id1] id2 r1 by auto
  moreover have "\<exists>r\<in>set (rows (snd (migrateCards ?files store_with_sets)) Cards).
          col ''id'' r = SText ''promo-1'' \<and> col ''setId'' r = SText ''xy7''"
    using migrateCards_setId[OF f2 prog_result[OF ok] id2] r2 by auto
  ultimately show ?thesis using ok by blast
qed

lemma independent_ofI:
  "(\<And>db x. p (put T x db) = (fst (p db), put T x (snd (p db)))) \<Longrightarrow> independent_of T p"
  by (simp add: independent_of_def)

lemma independent_ofD:
  "independent_of T p \<Longrightarrow> p (put T x db) = (fst (p db), put T x (snd (p db)))"
  by (simp add: independent_of_def)

lemma independent_of_preserves:
  assumes "independent_of T p"
  shows "rows (snd (p db)) T = rows db T"
proof -
  have "p (put T (rows db T) db) = (fst (p db), put T (rows db T) (snd (p db)))"
    using assms by (rule independent_ofD)
  then have "snd (p db) = put T (rows db T) (snd (p db))"
    by (metis put_rows snd_conv)
  then have "rows (snd (p db)) T = rows (put T (rows db T) (snd (p db))) T"
    by simp
  then show ?thesis
    by (simp add: rows_put)
qed

lemma independent_of_skip: "independent_of T skip"
  by (simp add: independent_of_def skip_def)

lemma independent_of_throw: "independent_of T (throw e)"
  by (simp add: independent_of_def throw_def)

lemma independent_of_seq:
  assumes "independent_of T p" "independent_of T q"
  shows "independent_of T (seq p q)"
proof (rule independent_ofI)
  fix db x
  show "seq p q (put T x db) = (fst (seq p q db), put T x (snd (seq p q db)))"
    using independent_ofD[OF assms(1), where db = db and x = x] independent_ofD[OF assms(2), where db = "snd (p db)" and x = x]
    by (cases "p db") (auto simp: seq_def split: sum.splits)
qed

lemma independent_of_transaction:
  assumes "independent_of T p"
  shows "independent_of T (transaction p)"
proof (rule independent_ofI)
  fix db x
  show "transaction p (put T x db) = (fst (transaction p db), put T x (snd (transaction p db)))"
    using independent_ofD[OF assms, where db = db and x = x]
    by (cases "p db") (auto simp: transaction_def split: sum.splits)
qed

lemma independent_of_try_catch:
  assumes "independent_of T p"
  shows "independent_of T (try_catch p)"
proof (rule independent_ofI)
  fix db x
  show "try_catch p (put T x db) = (fst (try_catch p db), put T x (snd (try_catch p db)))"
    using independent_ofD[OF assms, where db = db and x = x]
    by (cases "p db") (auto simp: try_catch_def split: sum.splits)
qed

lemma independent_of_for_of:
  assumes "\<And>y. independent_of T (body y)"
  shows "independent_of T (for_of body ys)"
proof (rule independent_ofI)
  fix db x
  show "for_of body ys (put T x db) = (fst (for_of body ys db), put T x (snd (for_of body ys db)))"
  proof (induction ys arbitrary: db)
    case Nil
    then show ?case by simp
  next
    case (Cons y ys)
    obtain r b where yb: "body y db = (r, b)"
      by (cases "body y db")
    then have yx: "body y (put T x db) = (r, put T x b)"
      using independent_ofD[OF assms, where db = db and x = x] by simp
    show ?case
    proof (cases r)
      case (Inl e)
      then show ?thesis
        by (simp only: for_of.simps yb yx sum.case prod.case fst_conv snd_conv)
    next
      case (Inr u)
      then show ?thesis
        by (simp only: for_of.simps yb yx sum.case prod.case fst_conv snd_conv Cons.IH[of b])
    qed
  qed
qed

lemma independent_of_for_of_js:
  assumes "\<And>y. independent_of T (body y)"
  shows "independent_of T (for_of_js body v)"
  using independent_of_for_of[of T body, OF assms] independent_of_throw[of T]
  by (auto simp: for_of_js_def split: sum.splits)

lemma independent_of_insert:
  assumes "T \<noteq> t" and "\<forall>c. foreign_key t \<noteq> Some (c, T)"
  shows "independent_of T (insert_or_replace t cs vs)"
proof (rule independent_ofI)
  fix db x
  have fk: "fk_ok t r (put T x d) = fk_ok t r d" for r d
    using assms(2) by (auto simp: fk_ok_def rows_put split: option.splits)
  have twist: "put t y (put T x d) = put T x (put t y d)" for d y
    using assms(1) by (simp add: put_twist)
  show "insert_or_replace t cs vs (put T x db)
          = (fst (insert_or_replace t cs vs db), put T x (snd (insert_or_replace t cs vs db)))"
    using assms(1) by (auto simp: insert_or_replace_def Let_def fk twist rows_put split: sum.splits)
qed

lemma independent_of_run:
  assumes "T \<noteq> t" and "\<forall>c. foreign_key t \<noteq> Some (c, T)"
  shows "independent_of T (run t cs args)"
proof (rule independent_ofI)
  fix db x
  show "run t cs args (put T x db) = (fst (run t cs args db), put T x (snd (run t cs args db)))"
    using independent_ofD[OF independent_of_insert[OF assms], where db = db and x = x]
    by (auto simp: run_def split: sum.splits)
qed

lemma same_outside_refl: "same_outside W r r"
  by (simp add: same_outside_def)

lemma independent_agree:
  assumes "\<forall>T\<in>set Ws. independent_of T q" and "\<forall>t. t \<notin> set Ws \<longrightarrow> rows d1 t = rows d2 t"
  shows "same_outside (set Ws) (q d1) (q d2)"
  using assms
proof (induction Ws arbitrary: d1)
  case Nil
  then have "d1 = d2" by (auto intro: db_eqI)
  then show ?case by (simp add: same_outside_def)
next
  case (Cons T Ws)
  have ind: "independent_of T q" using Cons.prems(1) by simp
  have "same_outside (set Ws) (q (put T (rows d2 T) d1)) (q d2)"
    using Cons.prems by (intro Cons.IH) (auto simp: rows_put)
  moreover have "q (put T (rows d2 T) d1) = (fst (q d1), put T (rows d2 T) (snd (q d1)))"
    using ind by (rule independent_ofD)
  ultimately show ?case
    by (auto simp: same_outside_def rows_put)
qed

lemma seq_same_prefix:
  assumes "\<And>d. same_outside W (q d) (q' d)"
  shows "same_outside W (seq p q db) (seq p q' db)"
  using assms by (cases "p db") (auto simp: seq_def same_outside_def split: sum.splits)

text \<open>A step that always succeeds and writes only the tables \<open>Ws\<close>, against the step that
  does nothing, before a rest that does not depend on \<open>Ws\<close>.\<close>

lemma seq_step_skipped:
  assumes ok: "\<And>d. fst (s d) = Inr ()"
    and writes: "\<And>d t. t \<notin> set Ws \<Longrightarrow> rows (snd (s d)) t = rows d t"
    and failed: "\<And>d. s' d = (Inr (), d)"
    and rest: "\<forall>T\<in>set Ws. independent_of T q"
  shows "same_outside (set Ws) (seq s' q db) (seq s q db)"
proof -
  have "same_outside (set Ws) (q db) (q (snd (s db)))"
    using rest writes[where d = db] by (intro independent_agree) auto
  moreover have "seq s q db = q (snd (s db))"
    using ok[of db] by (cases "s db") (auto simp: seq_def)
  moreover have "seq s' q db = q db"
    using failed[of db] by (simp add: seq_def)
  ultimately show ?thesis by simp
qed

lemma step_skipped_last:
  assumes ok: "\<And>d. fst (s d) = Inr ()"
    and writes: "\<And>d t. t \<notin> W \<Longrightarrow> rows (snd (s d)) t = rows d t"
    and failed: "\<And>d. s' d = (Inr (), d)"
  shows "same_outside W (s' db) (s db)"
  using assms by (simp add: same_outside_def)

lemma try_catch_ok: "fst (try_catch p db) = Inr ()"
  by (cases "p db") (auto simp: try_catch_def split: sum.splits)

lemma try_catch_throw: "try_catch (throw e) db = (Inr (), db)"
  by (simp add: try_catch_def throw_def)

lemma independent_of_insertSet: "T \<noteq> Sets \<Longrightarrow> independent_of T (insertSet s)"
  unfolding independent_of_def insertSet_def
  using independent_of_run[of T Sets sets_columns]
  by (auto simp: independent_of_def split: sum.splits)

lemma independent_of_insertCard: "T \<noteq> Cards \<Longrightarrow> T \<noteq> Sets \<Longrightarrow> independent_of T (insertCard c)"
  unfolding independent_of_def insertCard_def
  using independent_of_run[of T Cards cards_columns]
  by (auto simp: independent_of_def split: sum.splits)

lemma independent_of_insertType: "T \<noteq> PokemonTypes \<Longrightarrow> independent_of T (insertType x)"
  unfolding insertType_def by (rule independent_of_run) auto

lemma independent_of_insertMove: "T \<noteq> PokemonMoves \<Longrightarrow> independent_of T (insertMove x)"
  unfolding insertMove_def by (rule independent_of_run) auto

lemma independent_of_insertAbility: "T \<noteq> PokemonAbilities \<Longrightarrow> independent_of T (insertAbility x)"
  unfolding insertAbility_def by (rule independent_of_run) auto

lemma independent_of_insertSpecies: "T \<noteq> PokemonSpecies \<Longrightarrow> independent_of T (insertSpecies x)"
  unfolding insertSpecies_def by (rule independent_of_run) auto

lemma independent_of_insertPokedex: "T \<noteq> Pokedexes \<Longrightarrow> independent_of T (insertPokedex x)"
  unfolding insertPokedex_def by (rule independent_of_run) auto

lemma independent_of_insertEntry:
  "T \<noteq> PokedexEntries \<Longrightarrow> T \<noteq> Pokedexes \<Longrightarrow> independent_of T (insertEntry p x)"
  unfolding insertEntry_def by (rule independent_of_run) auto

lemma independent_of_insertDeck: "T \<noteq> Decks \<Longrightarrow> T \<noteq> Sets \<Longrightarrow> independent_of T (insertDeck x)"
  unfolding insertDeck_def by (rule independent_of_run) auto

lemma independent_of_migratePokemonTypes:
  "T \<noteq> PokemonTypes \<Longrightarrow> independent_of T (migratePokemonTypes b)"
  unfolding migratePokemonTypes_def insertTypes_def
  by (cases b) (auto intro!: independent_of_try_catch independent_of_throw independent_of_transaction
        independent_of_for_of_js independent_of_insertType)

lemma independent_of_migratePokemonMoves:
  "T \<noteq> PokemonMoves \<Longrightarrow> independent_of T (migratePokemonMoves b)"
  unfolding migratePokemonMoves_def insertMoves_def
  by (cases b) (auto intro!: independent_of_try_catch independent_of_throw independent_of_transaction
        independent_of_for_of_js independent_of_insertMove)

lemma independent_of_migratePokemonAbilities:
  "T \<noteq> PokemonAbilities \<Longrightarrow> independent_of T (migratePokemonAbilities b)"
  unfolding migratePokemonAbilities_def insertAbilities_def
  by (cases b) (auto intro!: independent_of_try_catch independent_of_throw independent_of_transaction
        independent_of_for_of_js independent_of_insertAbility)

lemma independent_of_migratePokemonSpecies:
  "T \<noteq> PokemonSpecies \<Longrightarrow> independent_of T (migratePokemonSpecies b)"
  unfolding migratePokemonSpecies_def insertSpeciesBatch_def
  by (cases b) (auto intro!: independent_of_try_catch independent_of_throw independent_of_transaction
        independent_of_for_of_js independent_of_insertSpecies)

lemma independent_of_insert_pokedex_entries:
  "T \<noteq> PokedexEntries \<Longrightarrow> T \<noteq> Pokedexes \<Longrightarrow> independent_of T (insert_pokedex_entries p)"
  unfolding insert_pokedex_entries_def insertEntriesTransaction_def
  by (auto intro!: independent_of_throw independent_of_transaction independent_of_skip
        independent_of_for_of_js independent_of_insertEntry split: sum.splits)

lemma independent_of_migrate_pokedex:
  "T \<noteq> PokedexEntries \<Longrightarrow> T \<noteq> Pokedexes \<Longrightarrow> independent_of T (migrate_pokedex f r)"
  unfolding migrate_pokedex_def
  by (auto intro!: independent_of_throw independent_of_try_catch independent_of_seq
        independent_of_insertPokedex independent_of_insert_pokedex_entries split: sum.splits)

lemma independent_of_migratePokedexes:
  "T \<noteq> PokedexEntries \<Longrightarrow> T \<noteq> Pokedexes \<Longrightarrow> independent_of T (migratePokedexes l f)"
  unfolding migratePokedexes_def
  by (auto intro!: independent_of_throw independent_of_try_catch independent_of_for_of_js
        independent_of_migrate_pokedex split: sum.splits)

lemma failed_step_caught: "step_prog k (fail_step k e src) db = (Inr (), db)"
  by (cases k)
     (simp_all add: migratePokemonTypes_def migratePokemonMoves_def migratePokemonAbilities_def
        migratePokemonSpecies_def migratePokedexes_def try_catch_throw)

lemma step_ok: "fst (step_prog k src db) = Inr ()"
  by (cases k)
     (simp_all add: migratePokemonTypes_def migratePokemonMoves_def migratePokemonAbilities_def
        migratePokemonSpecies_def migratePokedexes_def try_catch_ok)

lemma migrate_failed_step:
  "same_outside (step_tables k) (migrate (fail_step k e src) db) (migrate src db)"
proof (cases k)
  case TypesStep
  have rest: "\<forall>T\<in>set [PokemonTypes]. independent_of T
      (seq (migratePokemonMoves (moves_body src))
      (seq (migratePokemonAbilities (abilities_body src))
      (seq (migratePokemonSpecies (species_body src))
           (migratePokedexes (pokedex_list_body src) (pokedex_body src)))))"
    by (auto intro!: independent_of_seq independent_of_migratePokemonMoves
          independent_of_migratePokemonAbilities independent_of_migratePokemonSpecies
          independent_of_migratePokedexes)
  have step: "\<And>d. same_outside (set [PokemonTypes])
      (seq (migratePokemonTypes (Inl e)) (seq (migratePokemonMoves (moves_body src))
      (seq (migratePokemonAbilities (abilities_body src))
      (seq (migratePokemonSpecies (species_body src))
           (migratePokedexes (pokedex_list_body src) (pokedex_body src))))) d)
      (seq (migratePokemonTypes (types_body src)) (seq (migratePokemonMoves (moves_body src))
      (seq (migratePokemonAbilities (abilities_body src))
      (seq (migratePokemonSpecies (species_body src))
           (migratePokedexes (pokedex_list_body src) (pokedex_body src))))) d)"
    by (rule seq_step_skipped[OF _ _ _ rest])
       (auto simp: migratePokemonTypes_def try_catch_ok try_catch_throw
             intro!: independent_of_preserves independent_of_migratePokemonTypes[unfolded migratePokemonTypes_def])
  show ?thesis
    unfolding TypesStep migrate_def
    using step by (auto intro!: seq_same_prefix)
next
  case MovesStep
  have rest: "\<forall>T\<in>set [PokemonMoves]. independent_of T
      (seq (migratePokemonAbilities (abilities_body src))
      (seq (migratePokemonSpecies (species_body src))
           (migratePokedexes (pokedex_list_body src) (pokedex_body src))))"
    by (auto intro!: independent_of_seq
          independent_of_migratePokemonAbilities independent_of_migratePokemonSpecies
          independent_of_migratePokedexes)
  have step: "\<And>d. same_outside (set [PokemonMoves])
      (seq (migratePokemonMoves (Inl e))
      (seq (migratePokemonAbilities (abilities_body src))
      (seq (migratePokemonSpecies (species_body src))
           (migratePokedexes (pokedex_list_body src) (pokedex_body src)))) d)
      (seq (migratePokemonMoves (moves_body src))
      (seq (migratePokemonAbilities (abilities_body src))
      (seq (migratePokemonSpecies (species_body src))
           (migratePokedexes (pokedex_list_body src) (pokedex_body src)))) d)"
    by (rule seq_step_skipped[OF _ _ _ rest])
       (auto simp: migratePokemonMoves_def try_catch_ok try_catch_throw
             intro!: independent_of_preserves independent_of_migratePokemonMoves[unfolded migratePokemonMoves_def])
  show ?thesis
    unfolding MovesStep migrate_def
    using step by (auto intro!: seq_same_prefix)
next
  case AbilitiesStep
  have rest: "\<forall>T\<in>set [PokemonAbilities]. independent_of T
      (seq (migratePokemonSpecies (species_body src))
           (migratePokedexes (pokedex_list_body src) (pokedex_body src)))"
    by (auto intro!: independent_of_seq independent_of_migratePokemonSpecies
          independent_of_migratePokedexes)
  have step: "\<And>d. same_outside (set [PokemonAbilities])
      (seq (migratePokemonAbilities (Inl e))
      (seq (migratePokemonSpecies (species_body src))
           (migratePokedexes (pokedex_list_body src) (pokedex_body src))) d)
      (seq (migratePokemonAbilities (abilities_body src))
      (seq (migratePokemonSpecies (species_body src))
           (migratePokedexes (pokedex_list_body src) (pokedex_body src))) d)"
    by (rule seq_step_skipped[OF _ _ _ rest])
       (auto simp: migratePokemonAbilities_def try_catch_ok try_catch_throw
             intro!: independent_of_preserves
               independent_of_migratePokemonAbilities[unfolded migratePokemonAbilities_def])
  show ?thesis
    unfolding AbilitiesStep migrate_def
    using step by (auto intro!: seq_same_prefix)
next
  case SpeciesStep
  have rest: "\<forall>T\<in>set [PokemonSpecies]. independent_of T
           (migratePokedexes (pokedex_list_body src) (pokedex_body src))"
    by (auto intro!: independent_of_migratePokedexes)
  have step: "\<And>d. same_outside (set [PokemonSpecies])
      (seq (migratePokemonSpecies (Inl e))
           (migratePokedexes (pokedex_list_body src) (pokedex_body src)) d)
      (seq (migratePokemonSpecies (species_body src))
           (migratePokedexes (pokedex_list_body src) (pokedex_body src)) d)"
    by (rule seq_step_skipped[OF _ _ _ rest])
       (auto simp: migratePokemonSpecies_def try_catch_ok try_catch_throw
             intro!: independent_of_preserves
               independent_of_migratePokemonSpecies[unfolded migratePokemonSpecies_def])
  show ?thesis
    unfolding SpeciesStep migrate_def
    using step by (auto intro!: seq_same_prefix)
next
  case PokedexStep
  have step: "\<And>d. same_outside {Pokedexes, PokedexEntries}
      (migratePokedexes (Inl e) (pokedex_body src) d)
      (migratePokedexes (pokedex_list_body src) (pokedex_body src) d)"
    by (rule step_skipped_last)
       (auto simp: migratePokedexes_def try_catch_ok try_catch_throw
             intro!: independent_of_preserves
               independent_of_migratePokedexes[unfolded migratePokedexes_def])
  show ?thesis
    unfolding PokedexStep migrate_def
    using step by (auto intro!: seq_same_prefix)
qed

subsection \<open>C6: a failing external step is contained\<close>

text \<open>
  Claim C6. For every run of the full migration in which an external-sourced step
  fails, the failure is caught within the step: every other migration step still
  executes to completion, and the rows of the sets and cards tables are identical to
  what they would be had the failing step succeeded or been skipped.

  For each of the five external steps \<open>k\<close> (types, moves, abilities, species, the
  pokedex list): the step whose fetch fails with \<open>e\<close> returns normally and writes
  nothing; and the migration with that failure ends with the same result and with
  the same rows in every table the step does not write, as the migration in which
  the fetch gave any body whatever (a body that is then rejected inside the step
  included).
\<close>

theorem external_failure_is_contained:
  "step_prog k (fail_step k e src) db = (Inr (), db)
   \<and> fst (migrate (fail_step k e src) db) = fst (migrate src db)
   \<and> rows (snd (migrate (fail_step k e src) db)) Sets = rows (snd (migrate src db)) Sets
   \<and> rows (snd (migrate (fail_step k e src) db)) Cards = rows (snd (migrate src db)) Cards
   \<and> (\<forall>t. t \<notin> step_tables k \<longrightarrow> rows (snd (migrate (fail_step k e src) db)) t = rows (snd (migrate src db)) t)"
proof -
  have same: "same_outside (step_tables k) (migrate (fail_step k e src) db) (migrate src db)"
    by (rule migrate_failed_step)
  have "Sets \<notin> step_tables k" "Cards \<notin> step_tables k"
    by (cases k; simp)+
  then have "rows (snd (migrate (fail_step k e src) db)) Sets = rows (snd (migrate src db)) Sets"
    and "rows (snd (migrate (fail_step k e src) db)) Cards = rows (snd (migrate src db)) Cards"
    using same unfolding same_outside_def by blast+
  then show ?thesis
    using failed_step_caught[of k e src db] same unfolding same_outside_def by blast
qed

text \<open>The species fetch fails: the types, moves, abilities and pokedex steps have
  written their rows all the same, the sets and cards are there, and only the species
  table stays empty.\<close>

theorem external_failure_is_contained_witness:
  "fst (migrate (fail_step SpeciesStep FetchError example_sources) empty_db) = Inr ()
   \<and> map (\<lambda>t. length (rows (snd (migrate (fail_step SpeciesStep FetchError example_sources) empty_db)) t))
        [Sets, Cards, PokemonTypes, PokemonMoves, PokemonAbilities, Pokedexes, PokedexEntries]
      = [2, 2, 1, 1, 1, 1, 2]
   \<and> length (rows (snd (migrate example_sources empty_db)) PokemonSpecies) = 1
   \<and> map (rows (snd (migrate (fail_step SpeciesStep FetchError example_sources) empty_db)))
        [Sets, Cards, Decks, PokemonTypes, PokemonMoves, PokemonAbilities, Pokedexes, PokedexEntries]
      = map (rows (snd (migrate example_sources empty_db)))
        [Sets, Cards, Decks, PokemonTypes, PokemonMoves, PokemonAbilities, Pokedexes, PokedexEntries]"
proof -
  have 1: "(fst (migrate example_sources empty_db),
            map (\<lambda>t. length (rows (snd (migrate example_sources empty_db)) t))
              [Sets, Cards, PokemonTypes, PokemonMoves, PokemonAbilities, PokemonSpecies, Pokedexes, PokedexEntries])
      = (Inr (), [2, 2, 1, 1, 1, 1, 1, 2])"
    by code_simp
  note c = external_failure_is_contained[of SpeciesStep FetchError example_sources empty_db]
  have same: "rows (snd (migrate (fail_step SpeciesStep FetchError example_sources) empty_db)) t
                = rows (snd (migrate example_sources empty_db)) t" if "t \<noteq> PokemonSpecies" for t
    using c that by simp
  have fst: "fst (migrate (fail_step SpeciesStep FetchError example_sources) empty_db) = Inr ()"
    using c 1 by simp
  show ?thesis
    using 1 fst by (simp add: same del: rows.simps fail_step.simps)
qed

subsection \<open>C2: running the migration twice\<close>


subsection \<open>C4: which batches are atomic\<close>

lemma transaction_all_or_nothing:
  "all_or_nothing body xs db (snd (transaction (for_of body xs) db))"
  by (cases "for_of body xs db") (auto simp: all_or_nothing_def transaction_def split: sum.splits)

lemma all_or_nothing_same: "all_or_nothing body xs db db"
  by (simp add: all_or_nothing_def)

lemma try_catch_snd: "snd (try_catch p db) = snd (p db)"
  by (cases "p db") (auto simp: try_catch_def split: sum.splits)

lemma for_of_js_all_or_nothing:
  "all_or_nothing body (js_batch v) db (snd (transaction (for_of_js body v) db))"
proof (cases "iterate v")
  case (Inl e)
  then show ?thesis
    by (simp add: for_of_js_def transaction_def throw_def all_or_nothing_def)
next
  case (Inr xs)
  then show ?thesis
    using transaction_all_or_nothing[of body xs db] by (simp add: for_of_js_def js_batch_def)
qed

lemma remote_all_or_nothing:
  "all_or_nothing body (remote_batch b) db
     (snd (try_catch (case b of Inl e \<Rightarrow> throw e | Inr j \<Rightarrow> transaction (for_of_js body (Val j))) db))"
  by (cases b)
     (simp_all add: try_catch_snd throw_def remote_batch_def all_or_nothing_same for_of_js_all_or_nothing)

text \<open>
  Claim C4, as amended. The claim says that for every entity kind the upsert of the
  kind's whole batch is atomic. That holds for the six kinds whose loop runs inside
  one transaction: sets, cards, types, moves, abilities, species. Decks are written
  one transaction per deck file, pokedex entries one transaction per pokedex, and a
  pokedex row by a statement of its own; for these the file's, respectively the
  pokedex's, rows are written all or nothing.
\<close>

theorem batches_all_or_nothing:
  "all_or_nothing insertSet (local_batch set_fs) db (snd (migrateSets set_fs db))
   \<and> all_or_nothing insertCard (local_batch card_fs) db (snd (migrateCards card_fs db))
   \<and> all_or_nothing insertType (remote_batch types) db (snd (migratePokemonTypes types db))
   \<and> all_or_nothing insertMove (remote_batch moves) db (snd (migratePokemonMoves moves db))
   \<and> all_or_nothing insertAbility (remote_batch abilities) db (snd (migratePokemonAbilities abilities db))
   \<and> all_or_nothing insertSpecies (remote_batch species) db (snd (migratePokemonSpecies species db))
   \<and> all_or_nothing insertDeck (deck_batch deck_file) db (snd (migrate_deck_file deck_file db))
   \<and> all_or_nothing (insertEntry pokedexData) (entries_batch pokedexData) db
         (snd (insert_pokedex_entries pokedexData db))"
proof -
  have sets: "all_or_nothing insertSet (local_batch set_fs) db (snd (migrateSets set_fs db))"
    using transaction_all_or_nothing[of insertSet _ db]
    by (cases "load_files set_fs")
       (simp_all add: migrateSets_def insertSets_def local_batch_def throw_def all_or_nothing_same)
  have cards: "all_or_nothing insertCard (local_batch card_fs) db (snd (migrateCards card_fs db))"
    using transaction_all_or_nothing[of insertCard _ db]
    by (cases "load_files card_fs")
       (simp_all add: migrateCards_def insertCards_def local_batch_def throw_def all_or_nothing_same)
  have types: "all_or_nothing insertType (remote_batch types) db (snd (migratePokemonTypes types db))"
    using remote_all_or_nothing[of insertType types db]
    by (cases types) (simp_all add: migratePokemonTypes_def insertTypes_def)
  have moves: "all_or_nothing insertMove (remote_batch moves) db (snd (migratePokemonMoves moves db))"
    using remote_all_or_nothing[of insertMove moves db]
    by (cases moves) (simp_all add: migratePokemonMoves_def insertMoves_def)
  have abilities: "all_or_nothing insertAbility (remote_batch abilities) db
      (snd (migratePokemonAbilities abilities db))"
    using remote_all_or_nothing[of insertAbility abilities db]
    by (cases abilities) (simp_all add: migratePokemonAbilities_def insertAbilities_def)
  have species: "all_or_nothing insertSpecies (remote_batch species) db
      (snd (migratePokemonSpecies species db))"
    using remote_all_or_nothing[of insertSpecies species db]
    by (cases species) (simp_all add: migratePokemonSpecies_def insertSpeciesBatch_def)
  have decks: "all_or_nothing insertDeck (deck_batch deck_file) db (snd (migrate_deck_file deck_file db))"
    using transaction_all_or_nothing[of insertDeck _ db]
    by (auto simp: migrate_deck_file_def insertDecks_def deck_batch_def throw_def all_or_nothing_same
             split: sum.splits)
  have entries: "all_or_nothing (insertEntry pokedexData) (entries_batch pokedexData) db
         (snd (insert_pokedex_entries pokedexData db))"
    using for_of_js_all_or_nothing[of "insertEntry pokedexData" _ db]
    by (auto simp: insert_pokedex_entries_def insertEntriesTransaction_def entries_batch_def
          opt_prop_def throw_def skip_def all_or_nothing_same split: sum.splits)
  show ?thesis
    using sets cards types moves abilities species decks entries by blast
qed

text \<open>The second card's insert fails in the middle of the batch: no card is stored.\<close>

theorem batches_all_or_nothing_witness:
  "fst (insertCard (Val card_without_set) store_with_sets) = Inr ()
   \<and> fst (for_of insertCard (local_batch [Inr (JArr [card_without_set, nameless_card])]) store_with_sets)
       = Inl NotNullViolation
   \<and> snd (migrateCards [Inr (JArr [card_without_set, nameless_card])] store_with_sets) = store_with_sets"
proof -
  have 1: "fst (insertCard (Val card_without_set) store_with_sets) = Inr ()"
    by code_simp
  have 2: "fst (for_of insertCard (local_batch [Inr (JArr [card_without_set, nameless_card])]) store_with_sets)
       = Inl NotNullViolation"
    by code_simp
  have "all_or_nothing insertCard (local_batch [Inr (JArr [card_without_set, nameless_card])]) store_with_sets
          (snd (migrateCards [Inr (JArr [card_without_set, nameless_card])] store_with_sets))"
    using batches_all_or_nothing[of _ store_with_sets "[Inr (JArr [card_without_set, nameless_card])]"]
    by blast
  then have "snd (migrateCards [Inr (JArr [card_without_set, nameless_card])] store_with_sets) = store_with_sets"
    using 2 by (auto simp: all_or_nothing_def)
  then show ?thesis using 1 2 by blast
qed

text \<open>
  Claim C4 as stated fails for pokedexes and for decks. The insert of the second
  pokedex fails, and the first pokedex row of the same batch stays committed; the
  insert of the second deck file's deck fails, and the first file's deck stays
  committed.
\<close>

theorem batch_not_atomic_counterexample:
  "fst (insertPokedex (Val nameless_pokedex) empty_db) = Inl NotNullViolation
   \<and> map (col ''name'') (rows (snd (migratePokedexes (Inr two_pokedex_list) two_pokedex_bodies empty_db)) Pokedexes)
       = [SText ''national'']
   \<and> fst (migrate_deck_file (two_deck_files ! 1) store_with_sets) = Inl ForeignKeyViolation
   \<and> map (col ''id'') (rows (snd (migrateDecks two_deck_files store_with_sets)) Decks)
       = [SText ''base1-deck-0'']"
  by code_simp

subsection \<open>C7: the species id of a pokedex entry, and a malformed entry\<close>


lemma bind_parseInt: "\<exists>v. bind_param (parseInt x) = Inr v"
  by (cases x rule: parseInt.cases) (auto split: option.splits)





subsection \<open>Reading a stored card\<close>

lemma col_append:
  "col k (c @ e) = (if k \<in> set (map fst c) then col k c else col k e)"
proof (cases "map_of c k")
  case None
  then have "k \<notin> set (map fst c)" by (simp add: map_of_eq_None_iff)
  then show ?thesis using None by (simp add: col_def map_add_def)
next
  case (Some v)
  then have "k \<in> set (map fst c)" by (metis map_of_eq_None_iff option.distinct(1) set_map)
  then show ?thesis using Some by (simp add: col_def map_add_def)
qed

lemma parse_or_json_column: "json_column v \<Longrightarrow> parse_or v d = Inr (decoded v d)"
  by (cases v) (auto simp: json_column_def decoded_def)

lemma card_row_ok_fst: "card_row_ok c \<Longrightarrow> map fst c = map fst (columns Cards)"
  by (simp add: card_row_ok_def)

lemma card_row_ok_json:
  assumes "card_row_ok c"
  shows "json_column (col ''subtypes'' c)" "json_column (col ''types'' c)"
    "json_column (col ''evolvesTo'' c)" "json_column (col ''abilities'' c)"
    "json_column (col ''attacks'' c)" "json_column (col ''weaknesses'' c)"
    "json_column (col ''resistances'' c)" "json_column (col ''retreatCost'' c)"
    "json_column (col ''nationalPokedexNumbers'' c)" "json_column (col ''legalities'' c)"
    "json_column (col ''images'' c)" "json_column (col ''rules'' c)"
  using assms by (simp_all add: card_row_ok_def card_json_columns_def)

lemma transformCardRow_joined:
  assumes c: "card_row_ok c" and e: "joined_columns_ok e"
  shows "transformCardRow (c @ e) = Inr (JObj
       [(''id'', from_sql (col ''id'' c)),
        (''name'', from_sql (col ''name'' c)),
        (''supertype'', from_sql (col ''supertype'' c)),
        (''subtypes'', decoded (col ''subtypes'' c) (JArr [])),
        (''level'', from_sql (col ''level'' c)),
        (''hp'', from_sql (col ''hp'' c)),
        (''types'', decoded (col ''types'' c) (JArr [])),
        (''evolvesFrom'', from_sql (col ''evolvesFrom'' c)),
        (''evolvesTo'', decoded (col ''evolvesTo'' c) (JArr [])),
        (''abilities'', decoded (col ''abilities'' c) (JArr [])),
        (''attacks'', decoded (col ''attacks'' c) (JArr [])),
        (''weaknesses'', decoded (col ''weaknesses'' c) (JArr [])),
        (''resistances'', decoded (col ''resistances'' c) (JArr [])),
        (''retreatCost'', decoded (col ''retreatCost'' c) (JArr [])),
        (''convertedRetreatCost'', from_sql (col ''convertedRetreatCost'' c)),
        (''number'', from_sql (col ''number'' c)),
        (''artist'', from_sql (col ''artist'' c)),
        (''rarity'', from_sql (col ''rarity'' c)),
        (''flavorText'', from_sql (col ''flavorText'' c)),
        (''nationalPokedexNumbers'', decoded (col ''nationalPokedexNumbers'' c) (JArr [])),
        (''legalities'', decoded (col ''legalities'' c) (JObj [])),
        (''images'', decoded (col ''images'' c) (JObj [])),
        (''rules'', decoded (col ''rules'' c) (JArr [])),
        (''set'', JObj
            [(''id'', from_sql (col ''setId'' c)),
             (''name'', from_sql (col ''setName'' e)),
             (''series'', from_sql (col ''series'' e)),
             (''total'', JNum 0),
             (''releaseDate'', from_sql (col ''releaseDate'' e)),
             (''images'', decoded (col ''setImages'' e) (JObj [])),
             (''year'', from_sql (col ''year'' e))])])"
proof -
  note j = card_row_ok_json[OF c]
  have cols: "map fst c = map fst (columns Cards)" by (rule card_row_ok_fst[OF c])
  have ej: "json_column (col ''setImages'' e)" using e by (simp add: joined_columns_ok_def)
  show ?thesis
    unfolding transformCardRow_def plain_def parsed_def
    by (simp add: col_append cols bindE_def parse_or_json_column j ej)
qed

subsection \<open>C10: a card whose set is not in the store\<close>

lemma joined_columns_ok_none: "joined_columns_ok no_set_columns"
  by (simp add: joined_columns_ok_def no_set_columns_def col_def json_column_def)

lemma joined_columns_ok_set: "json_column (col ''images'' s) \<Longrightarrow> joined_columns_ok (set_columns_of s)"
  by (simp add: joined_columns_ok_def set_columns_of_def col_def)

lemma left_join_set_rows:
  assumes "list_all (\<lambda>s. json_column (col ''images'' s)) sets" and "r \<in> set (left_join_set sets c)"
  shows "\<exists>e. r = c @ e \<and> joined_columns_ok e"
proof (cases "filter (\<lambda>s. sql_eq (col ''setId'' c) (col ''id'' s) = Some True) sets")
  case Nil
  then show ?thesis
    using assms(2) joined_columns_ok_none by (auto simp: left_join_set_def)
next
  case (Cons s ss)
  have "r \<in> set (map (\<lambda>s. c @ set_columns_of s) (s # ss))"
    using assms(2) Cons by (simp add: left_join_set_def)
  then obtain s' where s': "s' \<in> set (s # ss)" "r = c @ set_columns_of s'"
    by auto
  have "set (s # ss) \<subseteq> set sets"
    using Cons by (metis filter_is_subset)
  then have "s' \<in> set sets" using s'(1) by blast
  then show ?thesis using s'(2)
    using assms(1) joined_columns_ok_set by (auto simp: list_all_iff)
qed

lemma transformCardRow_stored:
  assumes "stored_ok db" and "r \<in> set (cards_join_sets db)"
  shows "transformCardRow r = Inr (card_record r)"
proof -
  obtain c where c: "c \<in> set (rows db Cards)" and r: "r \<in> set (left_join_set (rows db Sets) c)"
    using assms(2) by (auto simp: cards_join_sets_def)
  have "card_row_ok c" using assms(1) c by (simp add: stored_ok_def list_all_iff)
  moreover obtain e where "r = c @ e" "joined_columns_ok e"
    using left_join_set_rows[OF _ r] assms(1) by (auto simp: stored_ok_def)
  ultimately show ?thesis
    using transformCardRow_joined[of c e] by (simp add: card_record_def)
qed

lemma sequenceE_map_total:
  assumes "\<And>x. x \<in> set xs \<Longrightarrow> f x = Inr (g x)"
  shows "sequenceE (map f xs) = Inr (map g xs)"
  using assms by (induction xs) auto

lemma select_where_total:
  assumes "\<And>r. r \<in> set rs \<Longrightarrow> p r = Inr (q r)"
  shows "select_where p rs = Inr (filter q rs)"
  using assms by (induction rs) (auto simp: bindE_def)

lemma getAllCards_unfiltered:
  assumes "stored_ok db"
  shows "getAllCards None db = Inr (map card_record (cards_join_sets db))"
proof -
  have "select_where (where_all (conditions None)) (cards_join_sets db) = Inr (filter (\<lambda>r. True) (cards_join_sets db))"
    by (rule select_where_total) (simp add: conditions_def where_all_def bindE_def)
  then show ?thesis
    using sequenceE_map_total[of "cards_join_sets db" transformCardRow card_record,
        OF transformCardRow_stored[OF assms]]
    by (simp add: getAllCards_def bindE_def)
qed

text \<open>
  Claim C10, as amended. For every stored card whose \<^verbatim>\<open>setId\<close> matches no row of the
  sets table, the unfiltered listing still returns that card (the join is a left
  join), with its nested set carrying the stored \<^verbatim>\<open>setId\<close> as id, \<^verbatim>\<open>null\<close> for the set's
  name, series, releaseDate and year, the empty object \<^verbatim>\<open>{}\<close> for its images, and 0
  as total. (The claim says \<^verbatim>\<open>null\<close> for the images too; \<open>transformCardRow\<close> decodes a
  \<^verbatim>\<open>NULL\<close> image column as \<^verbatim>\<open>'{}'\<close>.)
\<close>

theorem orphan_card_listed:
  assumes "stored_ok db" and "c \<in> set (rows db Cards)"
    and "\<forall>s\<in>set (rows db Sets). sql_eq (col ''setId'' c) (col ''id'' s) \<noteq> Some True"
  shows "\<exists>cards. getAllCards None db = Inr cards
           \<and> (\<exists>x\<in>set cards.
                 get_prop ''id'' (Val x) = Inr (Val (from_sql (col ''id'' c)))
               \<and> get_prop ''name'' (Val x) = Inr (Val (from_sql (col ''name'' c)))
               \<and> get_prop ''set'' (Val x) = Inr (Val (JObj
                    [(''id'', from_sql (col ''setId'' c)),
                     (''name'', JNull),
                     (''series'', JNull),
                     (''total'', JNum 0),
                     (''releaseDate'', JNull),
                     (''images'', JObj []),
                     (''year'', JNull)])))"
proof -
  have ok: "card_row_ok c"
    using assms(1,2) by (simp add: stored_ok_def list_all_iff)
  have "filter (\<lambda>s. sql_eq (col ''setId'' c) (col ''id'' s) = Some True) (rows db Sets) = []"
    using assms(3) by (simp add: filter_empty_conv)
  then have "left_join_set (rows db Sets) c = [c @ no_set_columns]"
    by (simp add: left_join_set_def)
  then have joined: "c @ no_set_columns \<in> set (cards_join_sets db)"
    using assms(2) by (auto simp: cards_join_sets_def intro!: bexI[of _ c])
  have rec: "transformCardRow (c @ no_set_columns) = Inr (card_record (c @ no_set_columns))"
    by (rule transformCardRow_stored[OF assms(1) joined])
  note t = transformCardRow_joined[OF ok joined_columns_ok_none]
  have fields: "get_prop ''id'' (Val (card_record (c @ no_set_columns))) = Inr (Val (from_sql (col ''id'' c)))"
    "get_prop ''name'' (Val (card_record (c @ no_set_columns))) = Inr (Val (from_sql (col ''name'' c)))"
    "get_prop ''set'' (Val (card_record (c @ no_set_columns))) = Inr (Val (JObj
                    [(''id'', from_sql (col ''setId'' c)),
                     (''name'', JNull),
                     (''series'', JNull),
                     (''total'', JNum 0),
                     (''releaseDate'', JNull),
                     (''images'', JObj []),
                     (''year'', JNull)]))"
    using t by (simp_all add: card_record_def no_set_columns_def col_def decoded_def)
  have "card_record (c @ no_set_columns) \<in> set (map card_record (cards_join_sets db))"
    using joined by simp
  then show ?thesis
    using getAllCards_unfiltered[OF assms(1)] fields by blast
qed

theorem orphan_card_listed_witness:
  "stored_ok orphan_store \<and> rows orphan_store Cards = [orphan_row] \<and> rows orphan_store Sets = []
   \<and> (\<exists>cards. getAllCards None orphan_store = Inr cards
        \<and> (\<exists>x\<in>set cards.
              get_prop ''id'' (Val x) = Inr (Val JNull)
            \<and> get_prop ''name'' (Val x) = Inr (Val (JStr ''Grass Energy''))
            \<and> get_prop ''set'' (Val x) = Inr (Val (JObj
                 [(''id'', JNull), (''name'', JNull), (''series'', JNull), (''total'', JNum 0),
                  (''releaseDate'', JNull), (''images'', JObj []), (''year'', JNull)]))))"
proof -
  have 1: "stored_ok orphan_store \<and> rows orphan_store Cards = [orphan_row] \<and> rows orphan_store Sets = []"
    by code_simp
  have 2: "from_sql (col ''id'' orphan_row) = JNull" "from_sql (col ''name'' orphan_row) = JStr ''Grass Energy''"
    "from_sql (col ''setId'' orphan_row) = JNull"
    by (simp_all add: orphan_row_def col_def)
  show ?thesis
    using orphan_card_listed[of orphan_store orphan_row] 1 2 by simp
qed

text \<open>
  Claim C10 as stated fails in the set's images: for the card of the example store,
  which matches no set row, the listing returns the nested set with images \<^verbatim>\<open>{}\<close>,
  not \<^verbatim>\<open>null\<close>.
\<close>

theorem orphan_images_counterexample:
  "(case getAllCards None orphan_store of
      Inl e \<Rightarrow> []
    | Inr cards \<Rightarrow> map (\<lambda>x. opt_prop ''images'' (opt_prop ''set'' (Val x))) cards)
   = [Val (JObj [])]
   \<and> Val (JObj []) \<noteq> Val JNull"
  by code_simp

subsection \<open>C1: the filter of the card listing\<close>



lemma json_value_string: "json_value (JStr s) = SText s"
  by simp














subsection \<open>C8: a card record stored and read back\<close>


lemma get_prop_opt_prop: "get_prop k x = Inr v \<Longrightarrow> opt_prop k x = v"
  by (simp add: opt_prop_def)














end
